theory Spec2Isabelle
  imports Complex_Main "HOL-Library.Word"
begin

section \<open>Rattlescan: a shallow embedding of \<open>src/rattlescan/cli.py\<close>\<close>

text \<open>
  The program is glue between the file system and five libraries (\<open>hashlib\<close>,
  \<open>magic\<close>, \<open>PIL\<close>, \<open>PyPDF2\<close>, \<open>mutagen\<close>).  The file system is a map from paths to
  files, threaded through every function that touches it; the libraries, which are not
  part of the repository, are parameters collected in an environment record.  Every call
  that can raise in Python returns a value of the type \<open>exn + 'a\<close> here, \<open>Inl\<close> being the
  raised exception, and every \<open>try\<close>/\<open>except\<close> of the source is a \<open>case\<close> on such a value.
\<close>

subsection \<open>Bytes, paths, exceptions\<close>

type_synonym byte = "8 word"
type_synonym path = string

text \<open>
  The exception classes the handlers of the source tell apart: \<open>IOError\<close> (an alias of
  \<open>OSError\<close> in Python 3), \<open>ImportError\<close>, and every other subclass of \<open>Exception\<close>.  The
  string is what \<open>str(e)\<close> returns.
\<close>

datatype exn = IOError string | ImportError string | OtherError string

fun str_exn :: "exn \<Rightarrow> string" where
  "str_exn (IOError s) = s"
| "str_exn (ImportError s) = s"
| "str_exn (OtherError s) = s"

fun is_IOError :: "exn \<Rightarrow> bool" where
  "is_IOError (IOError s) = True"
| "is_IOError e = False"

fun is_ImportError :: "exn \<Rightarrow> bool" where
  "is_ImportError (ImportError s) = True"
| "is_ImportError e = False"

subsection \<open>The file system\<close>

text \<open>
  A file has its bytes, its modification time and two permission bits.  \<open>read_fault\<close>
  is a defect of the medium: \<open>Some k\<close> makes every read that touches the byte at offset
  \<open>k\<close> raise, so that a read can fail after earlier reads of the same file succeeded.
\<close>

record fdata =
  content :: "byte list"
  mtime :: nat
  readable :: bool
  writable :: bool
  read_fault :: "nat option"

type_synonym fs = "path \<Rightarrow> fdata option"

text \<open>\<open>open(fp, 'rb')\<close>: the file must exist and be readable.\<close>

definition open_rb :: "fs \<Rightarrow> path \<Rightarrow> exn + fdata" where
  "open_rb files fp =
     (case files fp of
        None \<Rightarrow> Inl (IOError ''No such file or directory'')
      | Some f \<Rightarrow> if readable f then Inr f else Inl (IOError ''Permission denied''))"

text \<open>
  \<open>f.read(n)\<close> at offset \<open>pos\<close>: at most \<open>n\<close> bytes, the empty byte string at the end
  of the file.
\<close>

definition file_read :: "fdata \<Rightarrow> nat \<Rightarrow> nat \<Rightarrow> exn + byte list" where
  "file_read f pos n =
     (case read_fault f of
        None \<Rightarrow> Inr (take n (drop pos (content f)))
      | Some k \<Rightarrow>
          if pos \<le> k \<and> k < pos + n \<and> k < length (content f)
          then Inl (IOError ''Input/output error'')
          else Inr (take n (drop pos (content f))))"

subsection \<open>Reports\<close>

text \<open>
  A report is Python's \<open>OrderedDict\<close> (or a \<open>dict\<close>, ordered by insertion as well): a
  list of pairs without repeated keys.  Assigning to a key that is present replaces its
  value in place, assigning to a new key appends it.
\<close>

fun od_set :: "'k \<Rightarrow> 'v \<Rightarrow> ('k \<times> 'v) list \<Rightarrow> ('k \<times> 'v) list" where
  "od_set k v [] = [(k, v)]"
| "od_set k v ((k', v') # m) = (if k' = k then (k, v) # m else (k', v') # od_set k v m)"

fun od_update :: "('k \<times> 'v) list \<Rightarrow> ('k \<times> 'v) list \<Rightarrow> ('k \<times> 'v) list" where
  "od_update m [] = m"
| "od_update m ((k, v) # kvs) = od_update (od_set k v m) kvs"

subsection \<open>The libraries and the platform\<close>

type_synonym pixel = "nat list"
type_synonym page = "byte list"

text \<open>
  What a Python expression evaluates to, where the source handles values of several
  types: the values of EXIF tags, of PDF document information and of audio tags.
\<close>

datatype pyval =
    PNone
  | PBool bool
  | PInt int
  | PFloat real
  | PStr string
  | PBytes "byte list"
  | PDict "(pyval \<times> pyval) list"

text \<open>
  A PIL image, as far as the source reads it: \<open>format\<close>, \<open>mode\<close>, \<open>size\<close>, the result of
  \<open>getdata()\<close>, whether the object has \<open>_getexif\<close>, and what \<open>_getexif()\<close> returns
  (\<open>None\<close> or the dictionary from tag id to value).
\<close>

record image =
  img_format :: pyval
  img_mode :: string
  img_size :: "nat \<times> nat"
  img_getdata :: "exn + pixel list"
  img_has_getexif :: bool
  img_getexif :: "exn + (int \<times> pyval) list option"

text \<open>A PyPDF2 reader: \<open>pages\<close>, \<open>is_encrypted\<close>, \<open>metadata\<close> (\<open>None\<close> or a dictionary).\<close>

record pdf =
  pdf_pages :: "exn + page list"
  pdf_is_encrypted :: "exn + bool"
  pdf_metadata :: "exn + (string \<times> pyval) list option"

text \<open>
  A mutagen file object: the attributes of \<open>audio.info\<close> that exist (\<open>None\<close> where
  \<open>hasattr\<close> is false) and \<open>audio.tags\<close>.
\<close>

record audio =
  au_length :: "pyval option"
  au_bitrate :: "pyval option"
  au_sample_rate :: "pyval option"
  au_channels :: "pyval option"
  au_tags :: "(pyval \<times> pyval) list option"

text \<open>
  The environment: which optional libraries were imported, and what the libraries and the
  platform compute.
  \<^item> \<open>Image_open\<close>: \<open>Image.open\<close> on the bytes of a file.
  \<^item> \<open>Image_save img op\<close>: \<open>img.save(op)\<close>.  \<open>Inl e\<close>: it raises before it opens \<open>op\<close>;
    \<open>Inr (r, bs)\<close>: it opens \<open>op\<close> for writing, writes \<open>bs\<close> and then returns
    (\<open>r = None\<close>) or raises (\<open>r = Some e\<close>).
  \<^item> \<open>PdfReader\<close>: \<open>PyPDF2.PdfReader\<close> on the bytes of a file; \<open>PdfWriter_write pages\<close>:
    what \<open>writer.write(out)\<close> writes to the open stream, and the exception it then
    raises, if any.
  \<^item> \<open>mutagen_File\<close>: \<open>mutagen.File\<close> on the bytes of a file (\<open>None\<close>: not recognised);
    \<open>mutagen_delete\<close> and \<open>mutagen_save\<close>: the new bytes of the file after
    \<open>audio.delete()\<close> and \<open>audio.save()\<close>.
  \<^item> \<open>TAGS\<close>, \<open>GPSTAGS\<close>: the tables of \<open>PIL.ExifTags\<close>.
  \<^item> \<open>py_str\<close>: \<open>str(v)\<close>; \<open>utf8_ignore\<close>: \<open>b.decode('utf-8', errors='ignore')\<close>.
  \<^item> \<open>urandom\<close>: the byte stream behind \<open>os.urandom\<close>.
  \<^item> \<open>magic_from_file mime files fp\<close>: \<open>magic.Magic(mime=mime).from_file(fp)\<close>.
  \<^item> \<open>md5\<close>, \<open>sha1\<close>, \<open>sha256\<close>: the digest of the bytes fed to a hash object, typed by
    its width.
  \<^item> \<open>fmt_float k x\<close>: \<open>format(x, '.kf')\<close>.  Python's floats are modelled by the reals.
\<close>

record env =
  PIL_AVAILABLE :: bool
  PYPDF2_AVAILABLE :: bool
  MUTAGEN_AVAILABLE :: bool
  Image_open :: "byte list \<Rightarrow> exn + image"
  Image_save :: "image \<Rightarrow> path \<Rightarrow> exn + (exn option \<times> byte list)"
  PdfReader :: "byte list \<Rightarrow> exn + pdf"
  PdfWriter_write :: "page list \<Rightarrow> exn option \<times> byte list"
  mutagen_File :: "byte list \<Rightarrow> exn + audio option"
  mutagen_delete :: "byte list \<Rightarrow> exn + byte list"
  mutagen_save :: "byte list \<Rightarrow> exn + byte list"
  TAGS :: "int \<Rightarrow> string option"
  GPSTAGS :: "int \<Rightarrow> string option"
  py_str :: "pyval \<Rightarrow> string"
  utf8_ignore :: "byte list \<Rightarrow> string"
  urandom :: "nat \<Rightarrow> byte"
  magic_from_file :: "bool \<Rightarrow> fs \<Rightarrow> path \<Rightarrow> exn + string"
  md5 :: "byte list \<Rightarrow> 128 word"
  sha1 :: "byte list \<Rightarrow> 160 word"
  sha256 :: "byte list \<Rightarrow> 256 word"
  fmt_float :: "nat \<Rightarrow> real \<Rightarrow> string"

text \<open>
  \<open>hexdigest()\<close> of \<open>hashlib\<close>, a library function as well: the digest as lowercase
  hexadecimal, two digits a byte, most significant first.
\<close>

definition hex_digit :: "nat \<Rightarrow> char" where
  "hex_digit d = ''0123456789abcdef'' ! (d mod 16)"

definition hex_of_nat :: "nat \<Rightarrow> nat \<Rightarrow> string" where
  "hex_of_nat k n = map (\<lambda>i. hex_digit (n div 16 ^ (k - 1 - i))) [0..<k]"

definition hexdigest :: "'a::len word \<Rightarrow> string" where
  "hexdigest w = hex_of_nat (LENGTH('a) div 4) (unat w)"

subsection \<open>\<open>calculate_file_hashes\<close>\<close>

text \<open>
  The loop \<open>while data := f.read(bs)\<close>: the three hash objects are the three byte
  lists, \<open>update\<close> appends.  A read that raises ends the loop with the exception.
\<close>

function hash_loop ::
  "fdata \<Rightarrow> nat \<Rightarrow> nat \<Rightarrow> byte list \<times> byte list \<times> byte list
     \<Rightarrow> exn + (byte list \<times> byte list \<times> byte list)" where
  "hash_loop f bs pos (m, s1, s256) =
     (case file_read f pos bs of
        Inl e \<Rightarrow> Inl e
      | Inr data \<Rightarrow>
          if data = [] then Inr (m, s1, s256)
          else hash_loop f bs (pos + length data) (m @ data, s1 @ data, s256 @ data))"
  by pat_completeness auto
termination
proof (relation "measure (\<lambda>(f, bs, pos, acc). length (content f) - pos)")
  show "wf (measure (\<lambda>(f, bs, pos, acc). length (content f) - pos))"
    by simp
next
  fix f :: fdata and bs pos :: nat and m s1 s256 data :: "byte list"
  assume r: "file_read f pos bs = Inr data" and ne: "data \<noteq> []"
  from r have d: "data = take bs (drop pos (content f))"
    by (auto simp: file_read_def split: option.splits if_splits)
  with ne have "pos < length (content f)"
    by (cases "pos < length (content f)") auto
  with ne show "((f, bs, pos + length data, m @ data, s1 @ data, s256 @ data), (f, bs, pos, m, s1, s256))
      \<in> measure (\<lambda>(f, bs, pos, acc). length (content f) - pos)"
    by (cases data) auto
qed

declare hash_loop.simps [simp del]

definition calculate_file_hashes :: "env \<Rightarrow> fs \<Rightarrow> path \<Rightarrow> nat \<Rightarrow> (string \<times> string) list" where
  "calculate_file_hashes E files fp bs =
     (case open_rb files fp of
        Inl e \<Rightarrow> od_set ''Error'' (''Could not calculate hashes: '' @ str_exn e) []
      | Inr f \<Rightarrow>
          (case hash_loop f bs 0 ([], [], []) of
             Inl e \<Rightarrow> od_set ''Error'' (''Could not calculate hashes: '' @ str_exn e) []
           | Inr (m, s1, s256) \<Rightarrow>
               od_set ''SHA-256'' (hexdigest (sha256 E s256))
                 (od_set ''SHA-1'' (hexdigest (sha1 E s1))
                   (od_set ''MD5'' (hexdigest (md5 E m)) []))))"

subsection \<open>Paths (\<open>pathlib\<close>)\<close>

text \<open>
  Paths are strings in the normal form of \<open>pathlib\<close> (no repeated or trailing slash, no
  \<open>.\<close> component), for which \<open>str(Path(fp))\<close> is \<open>fp\<close>.  \<open>Path(fp).name\<close> is the last
  component.  \<open>Path(fp).suffix\<close> follows pathlib: with \<open>i = name.rfind('.')\<close>, it is
  \<open>name[i:]\<close> when \<open>0 < i < len(name) - 1\<close> and the empty string otherwise.
\<close>

definition path_name :: "path \<Rightarrow> string" where
  "path_name fp = rev (takeWhile (\<lambda>c. c \<noteq> CHR ''/'') (rev fp))"

text \<open>\<open>s.rfind('.')\<close>: the index of the last dot, \<open>-1\<close> when there is none.\<close>

definition rfind_dot :: "string \<Rightarrow> int" where
  "rfind_dot s =
     (if CHR ''.'' \<in> set s
      then int (length s) - 1 - int (length (takeWhile (\<lambda>c. c \<noteq> CHR ''.'') (rev s)))
      else - 1)"

definition suffix :: "path \<Rightarrow> string" where
  "suffix fp =
     (let name = path_name fp; i = rfind_dot name
      in if 0 < i \<and> i < int (length name) - 1 then drop (nat i) name else [])"

text \<open>\<open>str(Path(fp).with_suffix(''))\<close>, for a path whose name is not empty.\<close>

definition without_suffix :: "path \<Rightarrow> path" where
  "without_suffix fp = take (length fp - length (suffix fp)) fp"

text \<open>\<open>str.lower()\<close> on the ASCII letters.\<close>

definition lower_char :: "char \<Rightarrow> char" where
  "lower_char c =
     (case map_of (zip ''ABCDEFGHIJKLMNOPQRSTUVWXYZ'' ''abcdefghijklmnopqrstuvwxyz'') c of
        Some l \<Rightarrow> l
      | None \<Rightarrow> c)"

definition lower :: "string \<Rightarrow> string" where
  "lower s = map lower_char s"

subsection \<open>\<open>get_file_type_info\<close>\<close>

text \<open>The warning sign U+26A0 that starts the name of an anomaly field, in UTF-8.\<close>

definition warn :: string where
  "warn = [CHR 0xE2, CHR 0x9A, CHR 0xA0]"

definition expected :: "(string \<times> string list) list" where
  "expected =
     [(''image/jpeg'', [''.jpg'', ''.jpeg'']), (''image/png'', [''.png'']),
      (''application/pdf'', [''.pdf'']), (''text/plain'', [''.txt'']),
      (''application/zip'', [''.zip''])]"

text \<open>
  The two handlers: an \<open>ImportError\<close> adds the note, any other exception adds the error
  field, in both cases to the report as it was when the exception was raised.
\<close>

definition type_info_handler :: "(string \<times> string) list \<Rightarrow> exn \<Rightarrow> (string \<times> string) list" where
  "type_info_handler info e =
     (if is_ImportError e
      then od_set ''Note'' ''python-magic not installed. Install with: pip install python-magic'' info
      else od_set ''Error'' (str_exn e) info)"

definition get_file_type_info :: "env \<Rightarrow> fs \<Rightarrow> path \<Rightarrow> (string \<times> string) list" where
  "get_file_type_info E files fp =
     (case magic_from_file E True files fp of
        Inl e \<Rightarrow> type_info_handler [] e
      | Inr mime_type \<Rightarrow>
          (let info = od_set ''MIME Type'' mime_type []
           in case magic_from_file E False files fp of
                Inl e \<Rightarrow> type_info_handler info e
              | Inr descr \<Rightarrow>
                  (let info = od_set ''File Type Description'' descr info;
                       ext = lower (suffix fp)
                   in case map_of expected mime_type of
                        None \<Rightarrow> info
                      | Some exts \<Rightarrow>
                          if ext \<notin> set exts
                          then od_set
                                 (if ext \<noteq> [] then warn @ '' Extension Mismatch''
                                  else warn @ '' No Extension'')
                                 (''File is '' @ mime_type @ '' but has ''
                                    @ (if ext \<noteq> [] then ext else ''no'') @ '' extension'')
                                 info
                          else info)))"

subsection \<open>\<open>analyze_file_entropy\<close>\<close>

text \<open>The 256 buckets: \<open>freq = [0] * 256\<close>, then \<open>freq[b] += 1\<close> for every byte.\<close>

definition histogram :: "byte list \<Rightarrow> nat list" where
  "histogram data = fold (\<lambda>b freq. freq[unat b := freq ! unat b + 1]) data (replicate 256 0)"

text \<open>\<open>-sum((c/len(data)) * math.log2(c/len(data)) for c in freq if c > 0)\<close>\<close>

definition shannon :: "byte list \<Rightarrow> real" where
  "shannon data =
     - sum_list (map (\<lambda>c. (real c / real (length data)) * log 2 (real c / real (length data)))
                     (filter (\<lambda>c. c > 0) (histogram data)))"

definition classify :: "real \<Rightarrow> string" where
  "classify ent =
     (if ent > 7.5 then ''High entropy - possibly encrypted or compressed''
      else if ent < 4.0 then ''Low entropy - likely plain text or repetitive data''
      else ''Medium entropy - typical binary data'')"

definition analyze_file_entropy :: "env \<Rightarrow> fs \<Rightarrow> path \<Rightarrow> nat \<Rightarrow> (string \<times> string) list" where
  "analyze_file_entropy E files fp ss =
     (case open_rb files fp of
        Inl e \<Rightarrow> [(''Error'', ''Entropy calculation error: '' @ str_exn e)]
      | Inr f \<Rightarrow>
          (case file_read f 0 ss of
             Inl e \<Rightarrow> [(''Error'', ''Entropy calculation error: '' @ str_exn e)]
           | Inr data \<Rightarrow>
               if length data = 0 then [(''Entropy'', ''N/A (empty file)'')]
               else (let ent = shannon data
                     in od_set ''Analysis'' (classify ent)
                          (od_set ''Entropy'' (fmt_float E 4 ent @ '' bits/byte'') []))))"

subsection \<open>The world the mutating functions run in\<close>

text \<open>
  The state threaded through the cleaning and wiping functions: the file system, the
  clock that stamps written files, the position in the random stream, the calls made on
  the file object of \<open>secure_wipe_file\<close> and on \<open>os\<close> (in order), and the lines printed.
  Directories and their permissions are not modelled: a path that does not exist can
  always be created, an existing one can always be removed or renamed over.
\<close>

datatype event =
    Seek path nat
  | Write path "byte list"
  | Flush path
  | Fsync path
  | Remove path
  | Replace path path

record world =
  disk :: fs
  clock :: nat
  rand_pos :: nat
  trace :: "event list"
  stdout :: "string list"

definition log_event :: "event \<Rightarrow> world \<Rightarrow> world" where
  "log_event ev w = w\<lparr>trace := trace w @ [ev]\<rparr>"

definition print :: "string \<Rightarrow> world \<Rightarrow> world" where
  "print line w = w\<lparr>stdout := stdout w @ [line]\<rparr>"

text \<open>A file just created: empty, stamped, readable and writable.\<close>

definition new_file :: "world \<Rightarrow> fdata" where
  "new_file w =
     \<lparr>content = [], mtime = clock w, readable = True, writable = True, read_fault = None\<rparr>"

text \<open>
  \<open>open(op, 'wb')\<close> (and \<open>'w+b'\<close>): an existing file must be writable and is truncated, a
  missing one is created.
\<close>

definition open_wb :: "world \<Rightarrow> path \<Rightarrow> (exn + unit) \<times> world" where
  "open_wb w op =
     (case disk w op of
        None \<Rightarrow> (Inr (), w\<lparr>disk := (disk w)(op \<mapsto> new_file w)\<rparr>)
      | Some f \<Rightarrow>
          if writable f
          then (Inr (), w\<lparr>disk := (disk w)(op \<mapsto> f\<lparr>content := [], mtime := clock w\<rparr>)\<rparr>)
          else (Inl (IOError ''Permission denied''), w))"

text \<open>
  Writing \<open>data\<close> at offset \<open>pos\<close> through an open file object: the bytes from \<open>pos\<close> on
  are overwritten, the file grows if the data reach beyond its end.
\<close>

definition write_at :: "path \<Rightarrow> nat \<Rightarrow> byte list \<Rightarrow> world \<Rightarrow> world" where
  "write_at op pos data w =
     (case disk w op of
        None \<Rightarrow> w
      | Some f \<Rightarrow>
          w\<lparr>disk := (disk w)(op \<mapsto>
               f\<lparr>content := take pos (content f) @ data @ drop (pos + length data) (content f),
                 mtime := clock w\<rparr>)\<rparr>)"

text \<open>\<open>os.path.getsize(fp)\<close>\<close>

definition getsize :: "world \<Rightarrow> path \<Rightarrow> exn + nat" where
  "getsize w fp =
     (case disk w fp of
        None \<Rightarrow> Inl (IOError ''No such file or directory'')
      | Some f \<Rightarrow> Inr (length (content f)))"

text \<open>\<open>open(fp, 'r+b')\<close>: the file must exist, be readable and writable; nothing changes.\<close>

definition open_rpb :: "world \<Rightarrow> path \<Rightarrow> exn + unit" where
  "open_rpb w fp =
     (case disk w fp of
        None \<Rightarrow> Inl (IOError ''No such file or directory'')
      | Some f \<Rightarrow> if readable f \<and> writable f then Inr () else Inl (IOError ''Permission denied''))"

text \<open>\<open>os.remove(fp)\<close>\<close>

definition os_remove :: "world \<Rightarrow> path \<Rightarrow> (exn + unit) \<times> world" where
  "os_remove w fp =
     (case disk w fp of
        None \<Rightarrow> (Inl (IOError ''No such file or directory''), w)
      | Some f \<Rightarrow> (Inr (), log_event (Remove fp) (w\<lparr>disk := (disk w)(fp := None)\<rparr>)))"

text \<open>\<open>os.replace(src, dst)\<close>: one step, \<open>dst\<close> is the old file or the new one, never a mix.\<close>

definition os_replace :: "world \<Rightarrow> path \<Rightarrow> path \<Rightarrow> (exn + unit) \<times> world" where
  "os_replace w src dst =
     (case disk w src of
        None \<Rightarrow> (Inl (IOError ''No such file or directory''), w)
      | Some f \<Rightarrow>
          (Inr (), log_event (Replace src dst) (w\<lparr>disk := ((disk w)(src := None))(dst \<mapsto> f)\<rparr>)))"

text \<open>\<open>os.urandom(n)\<close>: the next \<open>n\<close> bytes of the stream.\<close>

definition os_urandom :: "env \<Rightarrow> world \<Rightarrow> nat \<Rightarrow> byte list \<times> world" where
  "os_urandom E w n =
     (map (urandom E) [rand_pos w ..< rand_pos w + n], w\<lparr>rand_pos := rand_pos w + n\<rparr>)"

text \<open>The bytes of a file that can be read before its fault, if it has one.\<close>

definition readable_prefix :: "fdata \<Rightarrow> byte list" where
  "readable_prefix f =
     (case read_fault f of None \<Rightarrow> content f | Some k \<Rightarrow> take k (content f))"

text \<open>
  \<open>shutil.copy2(src, dst)\<close>: refuses to copy a file onto itself, copies the bytes and then
  the modification time and the permission bits.  A read that fails leaves in \<open>dst\<close> the
  bytes copied so far.
\<close>

definition copy2 :: "world \<Rightarrow> path \<Rightarrow> path \<Rightarrow> (exn + unit) \<times> world" where
  "copy2 w src dst =
     (if src = dst then (Inl (IOError ''are the same file''), w)
      else case open_rb (disk w) src of
             Inl e \<Rightarrow> (Inl e, w)
           | Inr f \<Rightarrow>
               (case open_wb w dst of
                  (Inl e, w') \<Rightarrow> (Inl e, w')
                | (Inr u, w') \<Rightarrow>
                    (case file_read f 0 (length (content f)) of
                       Inl e \<Rightarrow> (Inl e, write_at dst 0 (readable_prefix f) w')
                     | Inr data \<Rightarrow>
                         (Inr (), w'\<lparr>disk := (disk w')(dst \<mapsto>
                            \<lparr>content = data, mtime = mtime f, readable = readable f,
                             writable = writable f, read_fault = None\<rparr>)\<rparr>))))"

text \<open>Decimal digits of a natural number, for the numbers the messages contain.\<close>

fun str_nat :: "nat \<Rightarrow> string" where
  "str_nat n =
     (if n < 10 then [''0123456789'' ! n] else str_nat (n div 10) @ [''0123456789'' ! (n mod 10)])"

text \<open>\<open>op or default\<close>: \<open>None\<close> and the empty string are false.\<close>

definition or_path :: "path option \<Rightarrow> path \<Rightarrow> path" where
  "or_path op dflt = (case op of None \<Rightarrow> dflt | Some p \<Rightarrow> if p = [] then dflt else p)"

subsection \<open>\<open>clean_image_metadata\<close>\<close>

text \<open>\<open>Image.new(mode, size)\<close> followed by \<open>putdata(data)\<close>: the pixels and nothing else.\<close>

definition Image_new :: "string \<Rightarrow> nat \<times> nat \<Rightarrow> pixel list \<Rightarrow> image" where
  "Image_new mode sz data =
     \<lparr>img_format = PNone, img_mode = mode, img_size = sz, img_getdata = Inr data,
      img_has_getexif = False, img_getexif = Inr None\<rparr>"

text \<open>
  \<open>clean.save(op)\<close> on the file system.  When saving fails after \<open>op\<close> was opened, PIL
  removes \<open>op\<close> if the call created it, and leaves an existing \<open>op\<close> with the bytes
  written so far.
\<close>

definition image_save :: "env \<Rightarrow> world \<Rightarrow> image \<Rightarrow> path \<Rightarrow> (exn + unit) \<times> world" where
  "image_save E w img op =
     (case Image_save E img op of
        Inl e \<Rightarrow> (Inl e, w)
      | Inr (r, bs) \<Rightarrow>
          (case open_wb w op of
             (Inl e, w') \<Rightarrow> (Inl e, w')
           | (Inr u, w') \<Rightarrow>
               (case r of
                  None \<Rightarrow> (Inr (), write_at op 0 bs w')
                | Some e \<Rightarrow>
                    if disk w op = None then (Inl e, w'\<lparr>disk := (disk w')(op := None)\<rparr>)
                    else (Inl e, write_at op 0 bs w'))))"

definition clean_image_metadata ::
  "env \<Rightarrow> world \<Rightarrow> path \<Rightarrow> path option \<Rightarrow> (bool \<times> string) \<times> world" where
  "clean_image_metadata E w fp op =
     (if \<not> PIL_AVAILABLE E then ((False, ''Pillow library not available''), w)
      else
        (let op = or_path op fp;
             failed = (\<lambda>e. (False, ''Error cleaning image metadata: '' @ str_exn e))
         in case open_rb (disk w) fp of
              Inl e \<Rightarrow> (failed e, w)
            | Inr f \<Rightarrow>
                (case Image_open E (content f) of
                   Inl e \<Rightarrow> (failed e, w)
                 | Inr img \<Rightarrow>
                     (case img_getdata img of
                        Inl e \<Rightarrow> (failed e, w)
                      | Inr data \<Rightarrow>
                          (case image_save E w (Image_new (img_mode img) (img_size img) data) op of
                             (Inl e, w') \<Rightarrow> (failed e, w')
                           | (Inr u, w') \<Rightarrow> ((True, ''Metadata cleaned successfully''), w'))))))"

subsection \<open>\<open>clean_pdf_metadata\<close>\<close>

definition clean_pdf_metadata ::
  "env \<Rightarrow> world \<Rightarrow> path \<Rightarrow> path option \<Rightarrow> (bool \<times> string) \<times> world" where
  "clean_pdf_metadata E w fp op =
     (if \<not> PYPDF2_AVAILABLE E then ((False, ''PyPDF2 library not available''), w)
      else
        (let op = or_path op (fp @ ''.cleaned.pdf'');
             failed = (\<lambda>e. (False, ''Error cleaning PDF metadata: '' @ str_exn e))
         in case open_rb (disk w) fp of
              Inl e \<Rightarrow> (failed e, w)
            | Inr f \<Rightarrow>
                (case PdfReader E (content f) of
                   Inl e \<Rightarrow> (failed e, w)
                 | Inr reader \<Rightarrow>
                     (case pdf_pages reader of
                        Inl e \<Rightarrow> (failed e, w)
                      | Inr pages \<Rightarrow>
                          (case open_wb w op of
                             (Inl e, w') \<Rightarrow> (failed e, w')
                           | (Inr u, w') \<Rightarrow>
                               (case PdfWriter_write E pages of
                                  (Some e, bs) \<Rightarrow> (failed e, write_at op 0 bs w')
                                | (None, bs) \<Rightarrow>
                                    ((True, ''Cleaned PDF saved to: '' @ op),
                                     write_at op 0 bs w')))))))"

subsection \<open>\<open>clean_audio_metadata\<close>\<close>

text \<open>
  A library call that rewrites the file at \<open>op\<close> in place (\<open>audio.delete()\<close>,
  \<open>audio.save()\<close>): the file must exist and be writable.
\<close>

definition rewrite_file ::
  "(byte list \<Rightarrow> exn + byte list) \<Rightarrow> world \<Rightarrow> path \<Rightarrow> (exn + unit) \<times> world" where
  "rewrite_file g w op =
     (case disk w op of
        None \<Rightarrow> (Inl (IOError ''No such file or directory''), w)
      | Some f \<Rightarrow>
          if \<not> writable f then (Inl (IOError ''Permission denied''), w)
          else case g (content f) of
                 Inl e \<Rightarrow> (Inl e, w)
               | Inr bs \<Rightarrow>
                   (Inr (), w\<lparr>disk := (disk w)(op \<mapsto> f\<lparr>content := bs, mtime := clock w\<rparr>)\<rparr>))"

text \<open>
  \<open>audio and audio.tags\<close>: a mutagen file object is false when it has no tag keys, so the
  condition holds exactly when the tags exist and are not empty.
\<close>

definition has_tags :: "audio option \<Rightarrow> bool" where
  "has_tags a =
     (case a of
        None \<Rightarrow> False
      | Some au \<Rightarrow> (case au_tags au of None \<Rightarrow> False | Some ts \<Rightarrow> ts \<noteq> []))"

definition clean_audio_metadata ::
  "env \<Rightarrow> world \<Rightarrow> path \<Rightarrow> path option \<Rightarrow> (bool \<times> string) \<times> world" where
  "clean_audio_metadata E w fp op =
     (if \<not> MUTAGEN_AVAILABLE E then ((False, ''mutagen library not available''), w)
      else
        (let op = or_path op (fp @ ''.cleaned'' @ suffix fp);
             failed = (\<lambda>e. (False, ''Error cleaning audio metadata: '' @ str_exn e))
         in case copy2 w fp op of
              (Inl e, w1) \<Rightarrow> (failed e, w1)
            | (Inr u, w1) \<Rightarrow>
                (case open_rb (disk w1) op of
                   Inl e \<Rightarrow> (failed e, w1)
                 | Inr f \<Rightarrow>
                     (case mutagen_File E (content f) of
                        Inl e \<Rightarrow> (failed e, w1)
                      | Inr a \<Rightarrow>
                          if has_tags a
                          then (case rewrite_file (mutagen_delete E) w1 op of
                                  (Inl e, w2) \<Rightarrow> (failed e, w2)
                                | (Inr u, w2) \<Rightarrow>
                                    (case rewrite_file (mutagen_save E) w2 op of
                                       (Inl e, w3) \<Rightarrow> (failed e, w3)
                                     | (Inr u, w3) \<Rightarrow>
                                         ((True, ''Cleaned audio saved to: '' @ op), w3)))
                          else ((True, ''No metadata tags found to remove''), w1)))))"

subsection \<open>\<open>secure_wipe_file\<close>\<close>

text \<open>
  The body of \<open>for i in range(passes)\<close>, for the pass indices still to run: \<open>seek(0)\<close>,
  \<open>write\<close> of random bytes (of \<open>0xFF\<close> bytes when \<open>i = 1\<close>), \<open>flush()\<close>, \<open>os.fsync\<close>.
\<close>

fun wipe_passes :: "env \<Rightarrow> path \<Rightarrow> nat \<Rightarrow> nat list \<Rightarrow> world \<Rightarrow> world" where
  "wipe_passes E fp sz [] w = w"
| "wipe_passes E fp sz (i # is) w =
     (let w1 = log_event (Seek fp 0) w;
          (data, w2) = (if i \<noteq> 1 then os_urandom E w1 sz else (replicate sz 0xFF, w1));
          w3 = log_event (Write fp data) (write_at fp 0 data w2);
          w4 = log_event (Flush fp) w3;
          w5 = log_event (Fsync fp) w4
      in wipe_passes E fp sz is w5)"

definition secure_wipe_file :: "env \<Rightarrow> world \<Rightarrow> path \<Rightarrow> nat \<Rightarrow> (bool \<times> string) \<times> world" where
  "secure_wipe_file E w fp passes =
     (let failed = (\<lambda>e. (False, ''Error during secure wipe: '' @ str_exn e))
      in case getsize w fp of
           Inl e \<Rightarrow> (failed e, w)
         | Inr sz \<Rightarrow>
             (case open_rpb w fp of
                Inl e \<Rightarrow> (failed e, w)
              | Inr u \<Rightarrow>
                  (case os_remove (wipe_passes E fp sz [0..<passes] w) fp of
                     (Inl e, w') \<Rightarrow> (failed e, w')
                   | (Inr u, w') \<Rightarrow>
                       ((True, ''File securely wiped with '' @ str_nat passes @ '' passes''), w'))))"

subsection \<open>\<open>perform_cleaning\<close>\<close>

definition bar :: string where
  "bar = replicate 70 CHR ''=''"

definition nl :: string where
  "nl = [CHR 0x0A]"

text \<open>The check mark U+2713 and the ballot cross U+2717, in UTF-8.\<close>

definition check_mark :: string where
  "check_mark = [CHR 0xE2, CHR 0x9C, CHR 0x93]"

definition cross_mark :: string where
  "cross_mark = [CHR 0xE2, CHR 0x9C, CHR 0x97]"

definition image_exts :: "string list" where
  "image_exts = [''.jpg'', ''.jpeg'', ''.png'', ''.tiff'', ''.bmp'', ''.gif'']"

definition audio_clean_exts :: "string list" where
  "audio_clean_exts = [''.mp3'', ''.flac'', ''.ogg'', ''.m4a'', ''.wav'']"

text \<open>The end of the cleaning branch: the outcome line, then the closing bar.\<close>

definition report_outcome :: "bool \<times> string \<Rightarrow> world \<Rightarrow> world" where
  "report_outcome r w =
     print bar
       (print (nl @ (if fst r then check_mark else cross_mark) @ '' '' @ snd r) w)"

definition perform_cleaning :: "env \<Rightarrow> world \<Rightarrow> path \<Rightarrow> string \<Rightarrow> (exn + unit) \<times> world" where
  "perform_cleaning E w fp action =
     (if action = ''skip'' then (Inr (), w)
      else
        (let ext = lower (suffix fp);
             w = print (nl @ bar) w
         in if action = ''secure_wipe'' then
              (let w = print (nl @ ''Wiping file with DOD 5220.22-M standard (3 passes)...'')
                         (print bar (print ''  PERFORMING SECURE WIPE'' w));
                   (r, w) = secure_wipe_file E w fp 3;
                   w = (if fst r
                        then print (check_mark @ '' File has been permanently deleted'')
                               (print (nl @ check_mark @ '' '' @ snd r) w)
                        else print (nl @ cross_mark @ '' '' @ snd r) w)
               in (Inr (), print bar w))
            else if action \<in> set [''clean_copy'', ''clean_overwrite''] then
              (let w = print bar (print ''  CLEANING METADATA'' w);
                   op = (if action = ''clean_overwrite'' then None else None)
               in if ext \<in> set image_exts then
                    (let op = (if action = ''clean_copy''
                               then Some (without_suffix fp @ ''.cleaned'' @ ext) else op);
                         (r, w) = clean_image_metadata E w fp op
                     in (Inr (), report_outcome r w))
                  else if ext = ''.pdf'' then
                    (if action = ''clean_overwrite'' then
                       (let tp = fp @ ''.temp.pdf'';
                            (r, w) = clean_pdf_metadata E w fp (Some tp)
                        in if fst r
                           then (case os_replace w tp fp of
                                   (Inl e, w) \<Rightarrow> (Inl e, w)
                                 | (Inr u, w) \<Rightarrow>
                                     (Inr (),
                                      report_outcome
                                        (fst r, ''PDF metadata cleaned (original overwritten)'') w))
                           else (Inr (), report_outcome r w))
                     else
                       (let (r, w) = clean_pdf_metadata E w fp None
                        in (Inr (), report_outcome r w)))
                  else if ext \<in> set audio_clean_exts then
                    (let op = (if action = ''clean_copy''
                               then Some (without_suffix fp @ ''.cleaned'' @ ext) else op);
                         (r, w) = clean_audio_metadata E w fp op
                     in (Inr (), report_outcome r w))
                  else
                    (Inr (),
                     print bar
                       (print (nl @ warn @ ''  Metadata cleaning not supported for '' @ ext
                                 @ '' files'') w)))
            else (Inr (), print bar w)))"

subsection \<open>The format metadata extractors\<close>

type_synonym pyreport = "(pyval \<times> pyval) list"

text \<open>
  The value stored for a tag: long byte strings become a summary, short ones are
  decoded, long strings are cut after 100 characters.
\<close>

definition shorten :: "env \<Rightarrow> pyval \<Rightarrow> pyval" where
  "shorten E val =
     (case val of
        PBytes b \<Rightarrow>
          PStr (if length b > 100 then ''<Binary Data, '' @ str_nat (length b) @ '' bytes>''
                else utf8_ignore E b)
      | PStr t \<Rightarrow> if length t > 100 then PStr (take 100 t @ ''...'') else PStr t
      | v \<Rightarrow> v)"

text \<open>\<open>GPSTAGS.get(gtid, gtid)\<close>\<close>

definition gps_key :: "env \<Rightarrow> pyval \<Rightarrow> pyval" where
  "gps_key E gtid =
     (case gtid of
        PInt i \<Rightarrow> (case GPSTAGS E i of Some n \<Rightarrow> PStr n | None \<Rightarrow> gtid)
      | k \<Rightarrow> k)"

text \<open>
  \<open>for tid, val in img._getexif().items()\<close>.  The value of the GPS tag must have
  \<open>items()\<close>: anything but a dictionary raises \<open>AttributeError\<close>.
\<close>

fun exif_loop :: "env \<Rightarrow> (int \<times> pyval) list \<Rightarrow> pyreport \<Rightarrow> exn + pyreport" where
  "exif_loop E [] exif = Inr exif"
| "exif_loop E ((tid, val) # items) exif =
     (let tag = (case TAGS E tid of Some n \<Rightarrow> PStr n | None \<Rightarrow> PInt tid)
      in if tag = PStr ''GPSInfo'' then
           (case val of
              PDict g \<Rightarrow>
                exif_loop E items
                  (od_set (PStr ''GPS Data'')
                     (PStr (py_str E (PDict (od_update [] (map (\<lambda>(gtid, gval). (gps_key E gtid, gval)) g)))))
                     exif)
            | v \<Rightarrow> Inl (OtherError ''object has no attribute items''))
         else exif_loop E items (od_set tag (shorten E val) exif))"

text \<open>The body of the \<open>try\<close> of \<open>get_image_exif_metadata\<close>.\<close>

definition exif_body :: "env \<Rightarrow> fs \<Rightarrow> path \<Rightarrow> exn + pyreport" where
  "exif_body E files fp =
     (case open_rb files fp of
        Inl e \<Rightarrow> Inl e
      | Inr f \<Rightarrow>
          (case Image_open E (content f) of
             Inl e \<Rightarrow> Inl e
           | Inr img \<Rightarrow>
               (let exif =
                      od_set (PStr ''Image Size'')
                        (PStr (str_nat (fst (img_size img)) @ '' x ''
                                 @ str_nat (snd (img_size img)) @ '' pixels''))
                        (od_set (PStr ''Image Mode'') (PStr (img_mode img))
                          (od_set (PStr ''Image Format'') (img_format img) []));
                    no_exif = od_set (PStr ''EXIF Status'') (PStr ''No EXIF data found'') exif
                in if \<not> img_has_getexif img then Inr no_exif
                   else case img_getexif img of
                          Inl e \<Rightarrow> Inl e
                        | Inr None \<Rightarrow> Inr no_exif
                        | Inr (Some items) \<Rightarrow> exif_loop E items exif)))"

text \<open>
  The extractors return \<open>exn + _\<close> like every function that Python lets raise; \<open>None\<close> is
  Python's \<open>None\<close>.
\<close>

definition get_image_exif_metadata :: "env \<Rightarrow> fs \<Rightarrow> path \<Rightarrow> exn + pyreport option" where
  "get_image_exif_metadata E files fp =
     (if \<not> PIL_AVAILABLE E
      then Inr (Some [(PStr ''Note'',
                       PStr ''Pillow library not installed. Cannot extract EXIF metadata.'')])
      else case exif_body E files fp of
             Inr exif \<Rightarrow> Inr (Some exif)
           | Inl e \<Rightarrow>
               if is_IOError e then Inr None
               else Inr (Some [(PStr ''Error'', PStr (''EXIF extraction error: '' @ str_exn e))]))"

text \<open>\<open>k.lstrip('/')\<close>\<close>

definition lstrip_slash :: "string \<Rightarrow> string" where
  "lstrip_slash k = dropWhile (\<lambda>c. c = CHR ''/'') k"

definition pdf_error :: "pyreport \<Rightarrow> exn \<Rightarrow> pyreport" where
  "pdf_error m e = od_set (PStr ''Error'') (PStr (''PDF extraction error: '' @ str_exn e)) m"

text \<open>
  The body of the \<open>try\<close> of \<open>get_pdf_metadata\<close>: the exception it raises, if any, and
  the report \<open>m\<close> as it is at that moment.
\<close>

definition pdf_body :: "env \<Rightarrow> fs \<Rightarrow> path \<Rightarrow> exn option \<times> pyreport" where
  "pdf_body E files fp =
     (case open_rb files fp of
        Inl e \<Rightarrow> (Some e, [])
      | Inr f \<Rightarrow>
          (case PdfReader E (content f) of
             Inl e \<Rightarrow> (Some e, [])
           | Inr reader \<Rightarrow>
               (case pdf_pages reader of
                  Inl e \<Rightarrow> (Some e, [])
                | Inr pages \<Rightarrow>
                    (case pdf_is_encrypted reader of
                       Inl e \<Rightarrow> (Some e, [])
                     | Inr enc \<Rightarrow>
                         (let m = od_set (PStr ''Encrypted'') (PBool enc)
                                    (od_set (PStr ''Number of Pages'')
                                       (PInt (int (length pages))) [])
                          in case pdf_metadata reader of
                               Inl e \<Rightarrow> (Some e, m)
                             | Inr None \<Rightarrow> (None, m)
                             | Inr (Some md) \<Rightarrow>
                                 if md = [] then (None, m)
                                 else (None,
                                       od_update m
                                         (od_update []
                                            (map (\<lambda>(k, v). (PStr (lstrip_slash k), v)) md))))))))"

definition get_pdf_metadata :: "env \<Rightarrow> fs \<Rightarrow> path \<Rightarrow> exn + pyreport" where
  "get_pdf_metadata E files fp =
     (if \<not> PYPDF2_AVAILABLE E
      then Inr [(PStr ''Note'', PStr ''PyPDF2 not installed. Install with: pip install PyPDF2'')]
      else case pdf_body E files fp of
             (Some e, m) \<Rightarrow> Inr (pdf_error m e)
           | (None, m) \<Rightarrow> Inr m)"

text \<open>
  The statements of a \<open>try\<close> body that fill the report one after the other: each either
  returns the report updated or raises, and the handler sees the report as the last
  completed statement left it.
\<close>

fun run_steps :: "(pyreport \<Rightarrow> exn + pyreport) list \<Rightarrow> pyreport \<Rightarrow> exn option \<times> pyreport" where
  "run_steps [] m = (None, m)"
| "run_steps (st # sts) m =
     (case st m of Inl e \<Rightarrow> (Some e, m) | Inr m' \<Rightarrow> run_steps sts m')"

text \<open>\<open>format(v, '.2f')\<close>: numbers only.\<close>

definition fmt_2f :: "env \<Rightarrow> pyval \<Rightarrow> exn + string" where
  "fmt_2f E v =
     (case v of
        PFloat x \<Rightarrow> Inr (fmt_float E 2 x)
      | PInt i \<Rightarrow> Inr (fmt_float E 2 (real_of_int i))
      | PBool b \<Rightarrow> Inr (fmt_float E 2 (if b then 1 else 0))
      | u \<Rightarrow> Inl (OtherError ''unsupported format string''))"

text \<open>\<open>v // 1000\<close>: numbers only.\<close>

definition floordiv_1000 :: "pyval \<Rightarrow> exn + pyval" where
  "floordiv_1000 v =
     (case v of
        PInt i \<Rightarrow> Inr (PInt (i div 1000))
      | PBool b \<Rightarrow> Inr (PInt 0)
      | PFloat x \<Rightarrow> Inr (PFloat (of_int \<lfloor>x / 1000\<rfloor>))
      | u \<Rightarrow> Inl (OtherError ''unsupported operand type(s) for //''))"

definition audio_steps :: "env \<Rightarrow> audio \<Rightarrow> (pyreport \<Rightarrow> exn + pyreport) list" where
  "audio_steps E a =
     [\<lambda>m. (case au_length a of
              None \<Rightarrow> Inr m
            | Some v \<Rightarrow>
                (case fmt_2f E v of
                   Inl e \<Rightarrow> Inl e
                 | Inr t \<Rightarrow> Inr (od_set (PStr ''Duration'') (PStr (t @ '' seconds'')) m))),
      \<lambda>m. (case au_bitrate a of
              None \<Rightarrow> Inr m
            | Some v \<Rightarrow>
                (case floordiv_1000 v of
                   Inl e \<Rightarrow> Inl e
                 | Inr q \<Rightarrow> Inr (od_set (PStr ''Bitrate'') (PStr (py_str E q @ '' kbps'')) m))),
      \<lambda>m. (case au_sample_rate a of
              None \<Rightarrow> Inr m
            | Some v \<Rightarrow> Inr (od_set (PStr ''Sample Rate'') (PStr (py_str E v @ '' Hz'')) m)),
      \<lambda>m. (case au_channels a of
              None \<Rightarrow> Inr m
            | Some v \<Rightarrow> Inr (od_set (PStr ''Channels'') v m)),
      \<lambda>m. (case au_tags a of
              None \<Rightarrow> Inr m
            | Some ts \<Rightarrow>
                if ts = [] then Inr m
                else Inr (od_update m
                       (od_update []
                          (map (\<lambda>(k, v). (PStr (py_str E k), PStr (py_str E v))) ts))))]"

definition audio_error :: "pyreport \<Rightarrow> exn \<Rightarrow> pyreport" where
  "audio_error m e =
     od_set (PStr ''Error'') (PStr (''Audio/video extraction error: '' @ str_exn e)) m"

text \<open>
  The body of the \<open>try\<close> of \<open>get_audio_video_metadata\<close>: the exception it raises and the
  report \<open>m\<close> at that moment, or the report it returns.
\<close>

definition audio_body :: "env \<Rightarrow> fs \<Rightarrow> path \<Rightarrow> exn option \<times> pyreport" where
  "audio_body E files fp =
     (case open_rb files fp of
        Inl e \<Rightarrow> (Some e, [])
      | Inr f \<Rightarrow>
          (case mutagen_File E (content f) of
             Inl e \<Rightarrow> (Some e, [])
           | Inr None \<Rightarrow> (None, [(PStr ''Note'', PStr ''Not a recognized audio/video file'')])
           | Inr (Some a) \<Rightarrow> run_steps (audio_steps E a) []))"

definition get_audio_video_metadata :: "env \<Rightarrow> fs \<Rightarrow> path \<Rightarrow> exn + pyreport" where
  "get_audio_video_metadata E files fp =
     (if \<not> MUTAGEN_AVAILABLE E
      then Inr [(PStr ''Note'', PStr ''mutagen not installed. Install with: pip install mutagen'')]
      else case audio_body E files fp of
             (Some e, m) \<Rightarrow> Inr (audio_error m e)
           | (None, m) \<Rightarrow> Inr m)"

subsection \<open>The choice of the extractor in \<open>main\<close>\<close>

definition audio_video_exts :: "string list" where
  "audio_video_exts =
     [''.mp3'', ''.mp4'', ''.flac'', ''.ogg'', ''.wav'', ''.m4a'', ''.avi'', ''.mkv'']"

text \<open>
  Lines 394 to 401 of \<open>main\<close>: the title and the report handed to \<open>print_metadata\<close>, if
  any.  An image report that is \<open>None\<close> or empty is not handed on.
\<close>

definition format_section :: "env \<Rightarrow> fs \<Rightarrow> path \<Rightarrow> exn + (string \<times> pyreport) option" where
  "format_section E files fp =
     (let ext = lower (suffix fp)
      in if ext \<in> set image_exts \<and> PIL_AVAILABLE E then
           (case get_image_exif_metadata E files fp of
              Inl e \<Rightarrow> Inl e
            | Inr None \<Rightarrow> Inr None
            | Inr (Some exif) \<Rightarrow>
                if exif = [] then Inr None else Inr (Some (''Image Metadata (EXIF)'', exif)))
         else if ext = ''.pdf'' then
           (case get_pdf_metadata E files fp of
              Inl e \<Rightarrow> Inl e
            | Inr m \<Rightarrow> Inr (Some (''PDF Metadata'', m)))
         else if ext \<in> set audio_video_exts then
           (case get_audio_video_metadata E files fp of
              Inl e \<Rightarrow> Inl e
            | Inr m \<Rightarrow> Inr (Some (''Audio/Video Metadata'', m)))
         else Inr None)"

subsection \<open>The vocabulary of the properties\<close>

text \<open>A lowercase hexadecimal string of \<open>n\<close> digits.\<close>

definition lowercase_hex :: "nat \<Rightarrow> string \<Rightarrow> bool" where
  "lowercase_hex n t = (length t = n \<and> set t \<subseteq> set ''0123456789abcdef'')"

text \<open>The names of the fields of a report.\<close>

definition keys :: "('k \<times> 'v) list \<Rightarrow> 'k list" where
  "keys m = map fst m"

text \<open>
  \<open>only_touches op w w'\<close>: from \<open>w\<close> to \<open>w'\<close> no path but \<open>op\<close> was created, changed or
  removed, and no call was added to the trace.
\<close>

definition only_touches :: "path \<Rightarrow> world \<Rightarrow> world \<Rightarrow> bool" where
  "only_touches op w w' =
     (trace w' = trace w \<and> (\<forall>p. p \<noteq> op \<longrightarrow> disk w' p = disk w p))"

text \<open>The three lines \<open>perform_cleaning\<close> prints before it cleans.\<close>

definition cleaning_header :: "world \<Rightarrow> world" where
  "cleaning_header w = print bar (print ''  CLEANING METADATA'' (print (nl @ bar) w))"

text \<open>What \<open>perform_cleaning\<close> prints when it refuses to clean a file with extension \<open>ext\<close>.\<close>

definition not_supported_lines :: "string \<Rightarrow> string list" where
  "not_supported_lines ext =
     [nl @ bar, ''  CLEANING METADATA'', bar,
      nl @ warn @ ''  Metadata cleaning not supported for '' @ ext @ '' files'', bar]"

subsection \<open>A concrete environment and concrete files\<close>

text \<open>
  Small stand-ins for the libraries, on which the functions above can be run: an image
  is one row of grey pixels, a PDF is one page, an audio file carries a tag when its
  first byte is \<open>0x49\<close>, and removing the tags drops that byte.
\<close>

definition demo_image :: "byte list \<Rightarrow> image" where
  "demo_image bs =
     \<lparr>img_format = PStr ''PNG'', img_mode = ''L'', img_size = (length bs, 1),
      img_getdata = Inr (map (\<lambda>b. [unat b]) bs), img_has_getexif = True,
      img_getexif = Inr (Some [(271, PStr ''Cam'')])\<rparr>"

definition demo_pdf :: "byte list \<Rightarrow> pdf" where
  "demo_pdf bs =
     \<lparr>pdf_pages = Inr [bs], pdf_is_encrypted = Inr False,
      pdf_metadata = Inr (Some [(''/Author'', PStr ''me'')])\<rparr>"

definition demo_audio :: "byte list \<Rightarrow> audio" where
  "demo_audio bs =
     \<lparr>au_length = Some (PFloat 1), au_bitrate = Some (PInt 128000), au_sample_rate = None,
      au_channels = Some (PInt 2),
      au_tags = (if take 1 bs = [0x49] then Some [(PStr ''TIT2'', PStr ''Song'')] else None)\<rparr>"

definition demo_env :: env where
  "demo_env =
     \<lparr>PIL_AVAILABLE = True, PYPDF2_AVAILABLE = True, MUTAGEN_AVAILABLE = True,
      Image_open = (\<lambda>bs. if bs = [] then Inl (IOError ''cannot identify image file'')
                          else Inr (demo_image bs)),
      Image_save = (\<lambda>img op. Inr (None, [0x89, 0x50])),
      PdfReader = (\<lambda>bs. Inr (demo_pdf bs)),
      PdfWriter_write = (\<lambda>pages. (None, concat pages)),
      mutagen_File = (\<lambda>bs. Inr (Some (demo_audio bs))),
      mutagen_delete = (\<lambda>bs. Inr (drop 1 bs)),
      mutagen_save = (\<lambda>bs. Inr bs),
      TAGS = (\<lambda>i. if i = 271 then Some ''Make'' else None),
      GPSTAGS = (\<lambda>i. None),
      py_str = (\<lambda>v. case v of PStr t \<Rightarrow> t | u \<Rightarrow> ''?''),
      utf8_ignore = (\<lambda>bs. []),
      urandom = (\<lambda>i. of_nat (7 * i + 1)),
      magic_from_file = (\<lambda>mime files fp.
         case files fp of
           None \<Rightarrow> Inl (IOError ''No such file or directory'')
         | Some f \<Rightarrow> Inr (if mime then ''image/png'' else ''PNG image data'')),
      md5 = (\<lambda>bs. of_nat (length bs)),
      sha1 = (\<lambda>bs. of_nat (length bs)),
      sha256 = (\<lambda>bs. of_nat (length bs)),
      fmt_float = (\<lambda>k x. if x = 0 then ''0.'' @ replicate k CHR ''0'' else ''#'')\<rparr>"

text \<open>The same environment on a full disk: saving an image fails after its first byte.\<close>

definition disk_full_env :: env where
  "disk_full_env =
     demo_env\<lparr>Image_save := (\<lambda>img op. Inr (Some (IOError ''No space left on device''), [0x89]))\<rparr>"

text \<open>
  An environment with faults: Pillow is missing, the document information of every PDF
  cannot be read, and every audio file reports a bitrate that is \<open>None\<close>.
\<close>

definition faulty_env :: env where
  "faulty_env =
     demo_env\<lparr>PIL_AVAILABLE := False,
       PdfReader := (\<lambda>bs. Inr ((demo_pdf bs)\<lparr>pdf_metadata := Inl (OtherError ''bad info'')\<rparr>)),
       mutagen_File := (\<lambda>bs. Inr (Some ((demo_audio bs)\<lparr>au_bitrate := Some PNone\<rparr>)))\<rparr>"

definition demo_file :: "byte list \<Rightarrow> fdata" where
  "demo_file bs =
     \<lparr>content = bs, mtime = 5, readable = True, writable = True, read_fault = None\<rparr>"

definition demo_world :: "path \<Rightarrow> byte list \<Rightarrow> world" where
  "demo_world fp bs =
     \<lparr>disk = [fp \<mapsto> demo_file bs], clock = 9, rand_pos = 0, trace = [], stdout = []\<rparr>"

section \<open>Properties\<close>

subsection \<open>Digests\<close>

lemma length_hex_of_nat: "length (hex_of_nat k n) = k"
  by (simp add: hex_of_nat_def)

lemma hex_digit_lower: "hex_digit d \<in> set ''0123456789abcdef''"
proof -
  have "d mod 16 < length ''0123456789abcdef''" by simp
  then have "''0123456789abcdef'' ! (d mod 16) \<in> set ''0123456789abcdef''"
    by (rule nth_mem)
  then show ?thesis by (simp only: hex_digit_def)
qed

lemma set_hex_of_nat: "set (hex_of_nat k n) \<subseteq> set ''0123456789abcdef''"
  unfolding hex_of_nat_def using hex_digit_lower by auto

lemma lowercase_hex_hexdigest:
  "lowercase_hex (LENGTH('a) div 4) (hexdigest (w :: 'a::len word))"
  unfolding lowercase_hex_def hexdigest_def using length_hex_of_nat set_hex_of_nat by blast

lemma take_drop_length: "take n ys @ drop (length (take n ys)) ys = ys"
  by (cases "n \<le> length ys") (simp_all add: min_def)

text \<open>
  Without a fault and with a positive chunk size, the loop feeds the whole rest of the
  file to each of the three hash objects, whatever the chunk size.
\<close>

lemma hash_loop_reads_all:
  "read_fault f = None \<Longrightarrow> 0 < bs \<Longrightarrow>
   hash_loop f bs pos (m, s1, s256) =
     Inr (m @ drop pos (content f), s1 @ drop pos (content f), s256 @ drop pos (content f))"
proof (induction f bs pos "(m, s1, s256)" arbitrary: m s1 s256 rule: hash_loop.induct)
  case (1 f bs pos m s1 s256)
  let ?data = "take bs (drop pos (content f))"
  have rd: "file_read f pos bs = Inr ?data"
    using "1.prems" by (simp add: file_read_def)
  show ?case
  proof (cases "?data = []")
    case True
    with "1.prems" have "drop pos (content f) = []"
      by (cases "drop pos (content f)") auto
    with rd True show ?thesis
      by (simp add: hash_loop.simps del: take_eq_Nil drop_eq_Nil)
  next
    case False
    have "hash_loop f bs (pos + length ?data) (m @ ?data, s1 @ ?data, s256 @ ?data)
      = Inr ((m @ ?data) @ drop (pos + length ?data) (content f),
             (s1 @ ?data) @ drop (pos + length ?data) (content f),
             (s256 @ ?data) @ drop (pos + length ?data) (content f))"
      using "1.hyps" [OF rd False] "1.prems" by blast
    moreover have "?data @ drop (pos + length ?data) (content f) = drop pos (content f)"
      using take_drop_length [of bs "drop pos (content f)"] by (simp add: add.commute)
    ultimately show ?thesis
      using rd False by (simp add: hash_loop.simps [of f bs pos] del: take_eq_Nil)
  qed
qed

text \<open>
  So a readable file without a fault gets the digests of its whole content, in the
  order MD5, SHA-1, SHA-256.
\<close>

lemma calculate_file_hashes_whole_file:
  assumes "files fp = Some f" and "readable f" and "read_fault f = None" and "0 < bs"
  shows "calculate_file_hashes E files fp bs =
    [(''MD5'', hexdigest (md5 E (content f))), (''SHA-1'', hexdigest (sha1 E (content f))),
     (''SHA-256'', hexdigest (sha256 E (content f)))]"
  using assms by (simp add: calculate_file_hashes_def open_rb_def hash_loop_reads_all)

text \<open>
  C3.  Whatever the file system, the path and the chunk size, the digest report is
  either the three entries MD5, SHA-1, SHA-256, in this order, with lowercase
  hexadecimal values of 32, 40 and 64 digits, or the single entry Error; there is no
  other shape, so no report mixes digests with an error and none has fewer than three
  digests.
\<close>

theorem digest_three_or_error:
  "(\<exists>a b c. calculate_file_hashes E files fp bs
                 = [(''MD5'', a), (''SHA-1'', b), (''SHA-256'', c)]
        \<and> lowercase_hex 32 a \<and> lowercase_hex 40 b \<and> lowercase_hex 64 c)
   \<or> (\<exists>msg. calculate_file_hashes E files fp bs = [(''Error'', msg)])"
proof (cases "open_rb files fp")
  case (Inl e)
  then show ?thesis by (simp add: calculate_file_hashes_def)
next
  case (Inr f)
  show ?thesis
  proof (cases "hash_loop f bs 0 ([], [], [])")
    case (Inl e)
    with Inr show ?thesis by (simp add: calculate_file_hashes_def)
  next
    case r: (Inr acc)
    obtain m s1 s256 where acc: "acc = (m, s1, s256)" by (cases acc)
    have a: "lowercase_hex 32 (hexdigest (md5 E m))"
      using lowercase_hex_hexdigest [of "md5 E m"] by simp
    have b: "lowercase_hex 40 (hexdigest (sha1 E s1))"
      using lowercase_hex_hexdigest [of "sha1 E s1"] by simp
    have c: "lowercase_hex 64 (hexdigest (sha256 E s256))"
      using lowercase_hex_hexdigest [of "sha256 E s256"] by simp
    from Inr r acc a b c show ?thesis by (simp add: calculate_file_hashes_def)
  qed
qed

theorem digest_three_or_error_witness:
  "(\<exists>a b c. calculate_file_hashes demo_env [''a.bin'' \<mapsto> demo_file [1, 2, 3]] ''a.bin'' 2
                 = [(''MD5'', a), (''SHA-1'', b), (''SHA-256'', c)]
        \<and> lowercase_hex 32 a \<and> lowercase_hex 40 b \<and> lowercase_hex 64 c)
   \<or> (\<exists>msg. calculate_file_hashes demo_env [''a.bin'' \<mapsto> demo_file [1, 2, 3]] ''a.bin'' 2
                 = [(''Error'', msg)])"
  by (rule digest_three_or_error)

subsection \<open>Entropy\<close>

lemma histogram_step_replicate:
  "unat b < length freq \<Longrightarrow>
   fold (\<lambda>b freq. freq[unat b := freq ! unat b + 1]) (replicate n b) freq
     = freq[unat b := freq ! unat b + n]"
proof (induction n arbitrary: freq)
  case 0
  then show ?case by simp
next
  case (Suc n)
  then show ?case by simp
qed

lemma unat_byte_less: "unat (b :: byte) < 256"
  using unsigned_less [of b, where 'a = nat] by simp

text \<open>A buffer of one repeated byte fills one bucket.\<close>

lemma histogram_replicate: "histogram (replicate n b) = (replicate 256 0)[unat b := n]"
  unfolding histogram_def
  by (subst histogram_step_replicate) (simp_all add: unat_byte_less)

lemma filter_pos_single:
  "i < k \<Longrightarrow> 0 < n \<Longrightarrow> filter (\<lambda>c. c > 0) ((replicate k (0::nat))[i := n]) = [n]"
  by (simp add: upd_conv_take_nth_drop)

lemma shannon_replicate: "0 < n \<Longrightarrow> shannon (replicate n b) = 0"
  by (simp add: shannon_def histogram_replicate filter_pos_single unat_byte_less)

text \<open>
  C6.  When the sampled buffer (what \<open>f.read(ss)\<close> returns) is \<open>n > 0\<close> copies of one
  byte, the entropy computed from the histogram is 0 and the report is the entropy 0
  with the analysis of the below-4.0 branch, "Low entropy".  Floats are the reals here;
  at this input the float computation is exact (\<open>n/n\<close> is 1.0 and \<open>log2(1.0)\<close> is 0.0).
\<close>

theorem entropy_single_byte:
  assumes "open_rb files fp = Inr f" and "file_read f 0 ss = Inr (replicate n b)" and "0 < n"
  shows "shannon (replicate n b) = 0 \<and>
     analyze_file_entropy E files fp ss =
       [(''Entropy'', fmt_float E 4 0 @ '' bits/byte''),
        (''Analysis'', ''Low entropy - likely plain text or repetitive data'')]"
  using assms by (simp add: analyze_file_entropy_def shannon_replicate classify_def)

theorem entropy_single_byte_witness:
  "open_rb [''z.bin'' \<mapsto> demo_file [7, 7, 7]] ''z.bin'' = Inr (demo_file [7, 7, 7])
   \<and> file_read (demo_file [7, 7, 7]) 0 1048576 = Inr (replicate 3 7)
   \<and> shannon (replicate 3 (7 :: byte)) = 0
   \<and> analyze_file_entropy demo_env [''z.bin'' \<mapsto> demo_file [7, 7, 7]] ''z.bin'' 1048576 =
       [(''Entropy'', ''0.0000 bits/byte''),
        (''Analysis'', ''Low entropy - likely plain text or repetitive data'')]"
proof -
  have o: "open_rb [''z.bin'' \<mapsto> demo_file [7, 7, 7]] ''z.bin'' = Inr (demo_file [7, 7, 7])"
    by (simp add: open_rb_def demo_file_def)
  have r: "file_read (demo_file [7, 7, 7]) 0 1048576 = Inr (replicate 3 7)"
    by (simp add: file_read_def demo_file_def numeral_3_eq_3)
  have f: "fmt_float demo_env 4 0 = ''0.0000''"
    by (simp add: demo_env_def numeral_eq_Suc)
  from entropy_single_byte [OF o r, of demo_env] o r f show ?thesis by simp
qed

lemma sentinel_not_numeric: "''N/A (empty file)'' \<noteq> t @ '' bits/byte''"
proof
  assume "''N/A (empty file)'' = t @ '' bits/byte''"
  then have "last ''N/A (empty file)'' = last (t @ '' bits/byte'')" by (rule arg_cong)
  then show False by simp
qed

text \<open>
  C7.  When the read returns zero bytes (as it does for the empty file), the report is
  the single entry Entropy = "N/A (empty file)", which is not the rendering of any
  number; when it returns at least one byte, the Entropy entry is the rendering of a
  number and not the sentinel.  So the two cases can be told apart.
\<close>

theorem entropy_empty_sentinel:
  assumes "open_rb files fp = Inr f" and "file_read f 0 ss = Inr data"
  shows "if data = []
         then analyze_file_entropy E files fp ss = [(''Entropy'', ''N/A (empty file)'')]
              \<and> (\<forall>x. map_of (analyze_file_entropy E files fp ss) ''Entropy''
                      \<noteq> Some (fmt_float E 4 x @ '' bits/byte''))
         else map_of (analyze_file_entropy E files fp ss) ''Entropy''
                = Some (fmt_float E 4 (shannon data) @ '' bits/byte'')
              \<and> map_of (analyze_file_entropy E files fp ss) ''Entropy''
                  \<noteq> Some ''N/A (empty file)''"
  using assms sentinel_not_numeric [of "fmt_float E 4 (shannon data)"] sentinel_not_numeric
  by (simp add: analyze_file_entropy_def Let_def)

theorem entropy_empty_sentinel_witness:
  "open_rb [''empty.txt'' \<mapsto> demo_file []] ''empty.txt'' = Inr (demo_file [])
   \<and> file_read (demo_file []) 0 1048576 = Inr []
   \<and> analyze_file_entropy demo_env [''empty.txt'' \<mapsto> demo_file []] ''empty.txt'' 1048576
        = [(''Entropy'', ''N/A (empty file)'')]"
proof -
  have o: "open_rb [''empty.txt'' \<mapsto> demo_file []] ''empty.txt'' = Inr (demo_file [])"
    by (simp add: open_rb_def demo_file_def)
  have r: "file_read (demo_file []) 0 1048576 = Inr []"
    by (simp add: file_read_def demo_file_def)
  from entropy_empty_sentinel [OF o r, of demo_env] o r show ?thesis by simp
qed

subsection \<open>Type classification\<close>

lemma expected_exts_nonempty: "map_of expected mime = Some exts \<Longrightarrow> [] \<notin> set exts"
  by (auto simp: expected_def split: if_splits)

text \<open>
  C8.  When both sniffing calls return and the MIME type is in the table, the report is
  the two sniffed fields followed by nothing if the lowercased extension is in the
  expected set, by the field "No Extension" if there is no extension, and by the field
  "Extension Mismatch" otherwise.
\<close>

theorem type_anomaly_exactly_on_mismatch:
  assumes "magic_from_file E True files fp = Inr mime"
      and "magic_from_file E False files fp = Inr descr"
      and "map_of expected mime = Some exts"
  shows "get_file_type_info E files fp =
     [(''MIME Type'', mime), (''File Type Description'', descr)] @
     (if lower (suffix fp) \<in> set exts then []
      else if lower (suffix fp) = []
      then [(warn @ '' No Extension'', ''File is '' @ mime @ '' but has no extension'')]
      else [(warn @ '' Extension Mismatch'',
             ''File is '' @ mime @ '' but has '' @ lower (suffix fp) @ '' extension'')])"
  using assms expected_exts_nonempty [OF assms(3)]
  by (auto simp: get_file_type_info_def warn_def Let_def)

theorem type_anomaly_exactly_on_mismatch_witness:
  "magic_from_file demo_env True [''shot.txt'' \<mapsto> demo_file [1]] ''shot.txt'' = Inr ''image/png''
   \<and> magic_from_file demo_env False [''shot.txt'' \<mapsto> demo_file [1]] ''shot.txt''
        = Inr ''PNG image data''
   \<and> map_of expected ''image/png'' = Some [''.png'']
   \<and> get_file_type_info demo_env [''shot.txt'' \<mapsto> demo_file [1]] ''shot.txt'' =
        [(''MIME Type'', ''image/png''), (''File Type Description'', ''PNG image data''),
         (warn @ '' Extension Mismatch'', ''File is image/png but has .txt extension'')]"
proof -
  have m: "magic_from_file demo_env True [''shot.txt'' \<mapsto> demo_file [1]] ''shot.txt''
             = Inr ''image/png''"
    by (simp add: demo_env_def)
  have d: "magic_from_file demo_env False [''shot.txt'' \<mapsto> demo_file [1]] ''shot.txt''
             = Inr ''PNG image data''"
    by (simp add: demo_env_def)
  have t: "map_of expected ''image/png'' = Some [''.png'']"
    by (simp add: expected_def)
  have x: "lower (suffix ''shot.txt'') = ''.txt''"
    by (simp add: lower_def suffix_def path_name_def rfind_dot_def lower_char_def Let_def)
  from type_anomaly_exactly_on_mismatch [OF m d t] m d t x show ?thesis by simp
qed

subsection \<open>Cleaning requests that are refused\<close>

lemma perform_cleaning_unsupported:
  assumes "action = ''clean_copy'' \<or> action = ''clean_overwrite''"
      and "lower (suffix fp) \<notin> set image_exts"
      and "lower (suffix fp) \<noteq> ''.pdf''"
      and "lower (suffix fp) \<notin> set audio_clean_exts"
  shows "perform_cleaning E w fp action =
     (Inr (), w\<lparr>stdout := stdout w @ not_supported_lines (lower (suffix fp))\<rparr>)"
proof -
  from assms(1) have a: "action \<noteq> ''skip''" "action \<noteq> ''secure_wipe''"
    "action \<in> set [''clean_copy'', ''clean_overwrite'']"
    by auto
  show ?thesis
    unfolding perform_cleaning_def
    using a assms(2-4)
    by (simp add: print_def Let_def not_supported_lines_def del: set_simps)
qed

text \<open>
  C9.  A clean-copy or clean-overwrite request for a file whose lowercased extension is
  in none of the three cleaning sets returns normally, prints the not-supported lines
  and changes nothing else: the file system is the same (every file with its bytes and
  its modification time, and no new path) and no call on \<open>os\<close> was made.
\<close>

theorem unsupported_extension_no_mutation:
  assumes "action = ''clean_copy'' \<or> action = ''clean_overwrite''"
      and "lower (suffix fp) \<notin> set image_exts"
      and "lower (suffix fp) \<noteq> ''.pdf''"
      and "lower (suffix fp) \<notin> set audio_clean_exts"
  shows "perform_cleaning E w fp action =
           (Inr (), w\<lparr>stdout := stdout w @ not_supported_lines (lower (suffix fp))\<rparr>)
         \<and> disk (snd (perform_cleaning E w fp action)) = disk w
         \<and> trace (snd (perform_cleaning E w fp action)) = trace w"
  using perform_cleaning_unsupported [OF assms] by simp

lemma suffix_exe: "lower (suffix ''tool.exe'') = ''.exe''"
  by (simp add: lower_def suffix_def path_name_def rfind_dot_def lower_char_def Let_def)

theorem unsupported_extension_no_mutation_witness:
  "lower (suffix ''tool.exe'') = ''.exe''
   \<and> perform_cleaning demo_env (demo_world ''tool.exe'' [1, 2]) ''tool.exe'' ''clean_copy'' =
       (Inr (), (demo_world ''tool.exe'' [1, 2])\<lparr>stdout := not_supported_lines ''.exe''\<rparr>)
   \<and> disk (snd (perform_cleaning demo_env (demo_world ''tool.exe'' [1, 2]) ''tool.exe'' ''clean_copy''))
       = [''tool.exe'' \<mapsto> demo_file [1, 2]]"
  using unsupported_extension_no_mutation
          [of "''clean_copy''" "''tool.exe''" demo_env "demo_world ''tool.exe'' [1, 2]"]
  by (simp add: suffix_exe image_exts_def audio_clean_exts_def demo_world_def)

lemma video_ext_facts:
  assumes "ext \<in> {''.mp4'', ''.avi'', ''.mkv''}"
  shows "ext \<notin> set image_exts" and "ext \<noteq> ''.pdf''"
    and "ext \<notin> set audio_clean_exts" and "ext \<in> set audio_video_exts"
proof -
  from assms consider "ext = ''.mp4''" | "ext = ''.avi''" | "ext = ''.mkv''" by blast
  then have "ext \<notin> set image_exts \<and> ext \<noteq> ''.pdf''
    \<and> ext \<notin> set audio_clean_exts \<and> ext \<in> set audio_video_exts"
  proof cases
    case 1
    then show ?thesis by (simp add: image_exts_def audio_clean_exts_def audio_video_exts_def)
  next
    case 2
    then show ?thesis by (simp add: image_exts_def audio_clean_exts_def audio_video_exts_def)
  next
    case 3
    then show ?thesis by (simp add: image_exts_def audio_clean_exts_def audio_video_exts_def)
  qed
  then show "ext \<notin> set image_exts" and "ext \<noteq> ''.pdf''"
    and "ext \<notin> set audio_clean_exts" and "ext \<in> set audio_video_exts"
    by simp_all
qed

lemma clean_exts_strict_subset: "set audio_clean_exts \<subset> set audio_video_exts"
proof -
  have "set audio_clean_exts \<subseteq> set audio_video_exts"
    by (simp add: audio_clean_exts_def audio_video_exts_def)
  moreover have "''.mp4'' \<in> set audio_video_exts" "''.mp4'' \<notin> set audio_clean_exts"
    by (simp_all add: audio_clean_exts_def audio_video_exts_def)
  ultimately show ?thesis by blast
qed

text \<open>
  C10.  For a file whose lowercased extension is \<open>.mp4\<close>, \<open>.avi\<close> or \<open>.mkv\<close>, a clean-copy
  or clean-overwrite request is refused like any unsupported one (the world changes by
  the printed lines only), although \<open>main\<close> hands such a file to the audio/video
  extractor; the extensions that can be cleaned as audio are a proper subset of those
  that are extracted as audio/video.
\<close>

theorem video_extensions_extract_only:
  assumes "action = ''clean_copy'' \<or> action = ''clean_overwrite''"
      and "lower (suffix fp) \<in> {''.mp4'', ''.avi'', ''.mkv''}"
  shows "perform_cleaning E w fp action =
           (Inr (), w\<lparr>stdout := stdout w @ not_supported_lines (lower (suffix fp))\<rparr>)
         \<and> format_section E files fp =
             (case get_audio_video_metadata E files fp of
                Inl e \<Rightarrow> Inl e
              | Inr m \<Rightarrow> Inr (Some (''Audio/Video Metadata'', m)))
         \<and> set audio_clean_exts \<subset> set audio_video_exts"
proof -
  note x = video_ext_facts [OF assms(2)]
  have f: "format_section E files fp =
             (case get_audio_video_metadata E files fp of
                Inl e \<Rightarrow> Inl e
              | Inr m \<Rightarrow> Inr (Some (''Audio/Video Metadata'', m)))"
    unfolding format_section_def using x by (simp add: Let_def)
  from perform_cleaning_unsupported [OF assms(1) x(1) x(2) x(3)] f clean_exts_strict_subset
  show ?thesis by blast
qed

lemma suffix_mp4: "lower (suffix ''Clip.MP4'') = ''.mp4''"
  by (simp add: lower_def suffix_def path_name_def rfind_dot_def lower_char_def Let_def)

theorem video_extensions_extract_only_witness:
  "lower (suffix ''Clip.MP4'') = ''.mp4''
   \<and> perform_cleaning demo_env (demo_world ''Clip.MP4'' [1, 2]) ''Clip.MP4'' ''clean_overwrite'' =
       (Inr (), (demo_world ''Clip.MP4'' [1, 2])\<lparr>stdout := not_supported_lines ''.mp4''\<rparr>)
   \<and> format_section demo_env [''Clip.MP4'' \<mapsto> demo_file [1, 2]] ''Clip.MP4'' =
       Inr (Some (''Audio/Video Metadata'',
         [(PStr ''Duration'', PStr ''# seconds''), (PStr ''Bitrate'', PStr ''? kbps''),
          (PStr ''Channels'', PInt 2)]))"
proof -
  have g: "get_audio_video_metadata demo_env [''Clip.MP4'' \<mapsto> demo_file [1, 2]] ''Clip.MP4'' =
      Inr [(PStr ''Duration'', PStr ''# seconds''), (PStr ''Bitrate'', PStr ''? kbps''),
          (PStr ''Channels'', PInt 2)]"
    by (simp add: get_audio_video_metadata_def audio_body_def open_rb_def demo_file_def
        demo_env_def demo_audio_def audio_steps_def fmt_2f_def floordiv_1000_def audio_error_def)
  from video_extensions_extract_only
          [of "''clean_overwrite''" "''Clip.MP4''" demo_env "demo_world ''Clip.MP4'' [1, 2]"
              "[''Clip.MP4'' \<mapsto> demo_file [1, 2]]"] g
  show ?thesis by (simp add: suffix_mp4 demo_world_def)
qed

subsection \<open>Secure wipe\<close>

lemma wipe_one_pass:
  assumes "disk w fp = Some f" and "sz = length (content f)"
  shows "wipe_passes E fp sz (i # is) w =
     wipe_passes E fp sz is
       (w\<lparr>rand_pos := (if i \<noteq> 1 then rand_pos w + sz else rand_pos w),
          disk := (disk w)(fp \<mapsto> f\<lparr>content :=
               (if i \<noteq> 1 then map (urandom E) [rand_pos w ..< rand_pos w + sz]
                else replicate sz 0xFF),
             mtime := clock w\<rparr>),
          trace := trace w @
            [Seek fp 0,
             Write fp (if i \<noteq> 1 then map (urandom E) [rand_pos w ..< rand_pos w + sz]
                       else replicate sz 0xFF),
             Flush fp, Fsync fp]\<rparr>)"
  using assms by (simp add: Let_def os_urandom_def write_at_def log_event_def)


text \<open>
  C2.  For a file of \<open>N\<close> bytes that exists and is readable and writable, the wipe with
  three passes succeeds.  Its calls are, in this order and with nothing in between:
  \<open>seek(0)\<close>, the write of \<open>N\<close> bytes taken from \<open>os.urandom\<close>, \<open>flush\<close>, \<open>fsync\<close>; the same
  with \<open>N\<close> bytes \<open>0xFF\<close>; the same with the next \<open>N\<close> bytes of \<open>os.urandom\<close>; then the
  removal of the path.  After pass 0, 1 and 2 the file holds exactly the bytes of that
  pass, and in the end the path is gone and no other path has changed.
\<close>

theorem secure_wipe_three_passes:
  assumes "disk w fp = Some f" and "readable f" and "writable f"
  shows "let N = length (content f); p = rand_pos w;
             r0 = map (urandom E) [p ..< p + N];
             r2 = map (urandom E) [p + N ..< p + N + N];
             ones = replicate N (0xFF :: byte)
         in length r0 = N \<and> length r2 = N
          \<and> map (\<lambda>k. map_option content (disk (wipe_passes E fp N [0..<k] w) fp)) [1, 2, 3]
              = [Some r0, Some ones, Some r2]
          \<and> fst (secure_wipe_file E w fp 3) = (True, ''File securely wiped with 3 passes'')
          \<and> trace (snd (secure_wipe_file E w fp 3)) = trace w @
               [Seek fp 0, Write fp r0, Flush fp, Fsync fp,
                Seek fp 0, Write fp ones, Flush fp, Fsync fp,
                Seek fp 0, Write fp r2, Flush fp, Fsync fp,
                Remove fp]
          \<and> disk (snd (secure_wipe_file E w fp 3)) = (disk w)(fp := None)"
proof -
  define N where "N = length (content f)"
  define r0 where "r0 = map (urandom E) [rand_pos w ..< rand_pos w + N]"
  define r2 where "r2 = map (urandom E) [rand_pos w + N ..< rand_pos w + N + N]"
  define ones where "ones = replicate N (0xFF :: byte)"
  define w1 where "w1 = w\<lparr>rand_pos := rand_pos w + N,
      disk := (disk w)(fp \<mapsto> f\<lparr>content := r0, mtime := clock w\<rparr>),
      trace := trace w @ [Seek fp 0, Write fp r0, Flush fp, Fsync fp]\<rparr>"
  define w2 where "w2 = w1\<lparr>rand_pos := rand_pos w1,
      disk := (disk w1)(fp \<mapsto> f\<lparr>content := ones, mtime := clock w\<rparr>),
      trace := trace w1 @ [Seek fp 0, Write fp ones, Flush fp, Fsync fp]\<rparr>"
  define w3 where "w3 = w2\<lparr>rand_pos := rand_pos w2 + N,
      disk := (disk w2)(fp \<mapsto> f\<lparr>content := r2, mtime := clock w\<rparr>),
      trace := trace w2 @ [Seek fp 0, Write fp r2, Flush fp, Fsync fp]\<rparr>"
  have len: "length r0 = N" "length r2 = N" "length ones = N"
    by (simp_all add: r0_def r2_def ones_def)
  have p1: "wipe_passes E fp N (0 # is) w = wipe_passes E fp N is w1" for "is"
    using wipe_one_pass [OF assms(1), of N E 0 "is"]
    by (simp add: N_def w1_def r0_def)
  have d1: "disk w1 fp = Some (f\<lparr>content := r0, mtime := clock w\<rparr>)"
    by (simp add: w1_def)
  have p2: "wipe_passes E fp N (1 # is) w1 = wipe_passes E fp N is w2" for "is"
    using wipe_one_pass [OF d1, of N E 1 "is"] len
    by (simp add: w2_def ones_def w1_def)
  have d2: "disk w2 fp = Some (f\<lparr>content := ones, mtime := clock w\<rparr>)"
    by (simp add: w2_def)
  have p3: "wipe_passes E fp N (2 # is) w2 = wipe_passes E fp N is w3" for "is"
    using wipe_one_pass [OF d2, of N E 2 "is"] len
    by (simp add: w3_def r2_def w2_def w1_def)
  have d3: "disk w3 fp = Some (f\<lparr>content := r2, mtime := clock w\<rparr>)"
    by (simp add: w3_def)
  have u1: "[0..<1] = [0]" and u2: "[0..<2] = [0, 1]" and u3: "[0..<3] = [0, 1, 2]"
    by (simp_all add: upt_rec)
  have a1: "wipe_passes E fp N [0..<1] w = w1"
    by (simp only: u1 p1 wipe_passes.simps(1))
  have a2: "wipe_passes E fp N [0..<2] w = w2"
    by (simp only: u2 p1 p2 wipe_passes.simps(1))
  have a3: "wipe_passes E fp N [0..<3] w = w3"
    by (simp only: u3 p1 p2 p3 wipe_passes.simps(1))
  have sw: "secure_wipe_file E w fp 3 =
      ((True, ''File securely wiped with 3 passes''),
       log_event (Remove fp) (w3\<lparr>disk := (disk w3)(fp := None)\<rparr>))"
    using assms a3 d3
    by (simp add: secure_wipe_file_def getsize_def open_rpb_def os_remove_def N_def)
  have tr: "trace w3 = trace w @
               [Seek fp 0, Write fp r0, Flush fp, Fsync fp,
                Seek fp 0, Write fp ones, Flush fp, Fsync fp,
                Seek fp 0, Write fp r2, Flush fp, Fsync fp]"
    by (simp add: w3_def w2_def w1_def)
  have dk: "(disk w3)(fp := None) = (disk w)(fp := None)"
    by (simp add: w3_def w2_def w1_def)
  have cs: "map (\<lambda>k. map_option content (disk (wipe_passes E fp N [0..<k] w) fp)) [1, 2, 3]
              = [Some r0, Some ones, Some r2]"
    using a1 a2 a3 d1 d2 d3 by simp
  show ?thesis
    unfolding Let_def
    using len cs sw tr dk
    by (simp add: N_def [symmetric] r0_def [symmetric] r2_def [symmetric] ones_def [symmetric]
        log_event_def)
qed

text \<open>A wipe that cannot open the file for update fails and changes nothing.\<close>

lemma secure_wipe_refused_unchanged:
  assumes "\<not> (\<exists>f. disk w fp = Some f \<and> readable f \<and> writable f)"
  shows "\<exists>msg. secure_wipe_file E w fp passes = ((False, msg), w)"
  using assms
  by (auto simp: secure_wipe_file_def getsize_def open_rpb_def split: option.splits)

theorem secure_wipe_three_passes_witness:
  "disk (demo_world ''secret.bin'' [1, 2]) ''secret.bin'' = Some (demo_file [1, 2])
   \<and> readable (demo_file [1, 2]) \<and> writable (demo_file [1, 2])
   \<and> fst (secure_wipe_file demo_env (demo_world ''secret.bin'' [1, 2]) ''secret.bin'' 3)
        = (True, ''File securely wiped with 3 passes'')
   \<and> trace (snd (secure_wipe_file demo_env (demo_world ''secret.bin'' [1, 2]) ''secret.bin'' 3))
        = [Seek ''secret.bin'' 0, Write ''secret.bin'' [1, 8], Flush ''secret.bin'',
           Fsync ''secret.bin'',
           Seek ''secret.bin'' 0, Write ''secret.bin'' [0xFF, 0xFF], Flush ''secret.bin'',
           Fsync ''secret.bin'',
           Seek ''secret.bin'' 0, Write ''secret.bin'' [15, 22], Flush ''secret.bin'',
           Fsync ''secret.bin'',
           Remove ''secret.bin'']
   \<and> disk (snd (secure_wipe_file demo_env (demo_world ''secret.bin'' [1, 2]) ''secret.bin'' 3))
        ''secret.bin'' = None"
proof -
  have d: "disk (demo_world ''secret.bin'' [1, 2]) ''secret.bin'' = Some (demo_file [1, 2])"
    by (simp add: demo_world_def)
  have r: "readable (demo_file [1, 2])" and wr: "writable (demo_file [1, 2])"
    by (simp_all add: demo_file_def)
  have c: "content (demo_file [1, 2]) = [1, 2]" by (simp add: demo_file_def)
  have p: "rand_pos (demo_world ''secret.bin'' [1, 2]) = 0"
    and t: "trace (demo_world ''secret.bin'' [1, 2]) = []"
    by (simp_all add: demo_world_def)
  have u: "urandom demo_env i = of_nat (7 * i + 1)" for i
    by (simp add: demo_env_def)
  from secure_wipe_three_passes [OF d r wr, of demo_env] d r wr
  show ?thesis
    by (simp add: Let_def c p t u)
qed

subsection \<open>What the cleaners may touch\<close>

lemma only_touches_refl: "only_touches op w w"
  by (simp add: only_touches_def)

lemma only_touches_trans:
  "only_touches op w w1 \<Longrightarrow> only_touches op w1 w2 \<Longrightarrow> only_touches op w w2"
  by (simp add: only_touches_def)

lemma only_touches_print: "only_touches op w (print line w)"
  by (simp add: only_touches_def print_def)

lemma only_touches_print_iff: "only_touches op (print line w) w' = only_touches op w w'"
  by (simp add: only_touches_def print_def)

lemma open_wb_frame:
  "open_wb w op = (x, w') \<Longrightarrow>
   only_touches op w w' \<and> (x = Inr () \<longrightarrow> disk w' op \<noteq> None)"
  by (auto simp: open_wb_def only_touches_def split: option.splits if_splits)

lemma write_at_frame:
  "only_touches op w (write_at op pos data w)
   \<and> (disk w op \<noteq> None \<longrightarrow> disk (write_at op pos data w) op \<noteq> None)"
  by (auto simp: write_at_def only_touches_def split: option.splits)

lemma image_save_frame:
  assumes "image_save E w img op = (x, w')"
  shows "only_touches op w w' \<and> (x = Inr () \<longrightarrow> disk w' op \<noteq> None)"
proof (cases "Image_save E img op")
  case (Inl e)
  with assms show ?thesis by (auto simp: image_save_def only_touches_refl)
next
  case (Inr rb)
  obtain r bs where rb: "rb = (r, bs)" by (cases rb)
  obtain y w1 where o: "open_wb w op = (y, w1)" by (cases "open_wb w op")
  note f1 = open_wb_frame [OF o]
  show ?thesis
  proof (cases y)
    case (Inl e)
    with assms Inr rb o f1 show ?thesis by (simp add: image_save_def)
  next
    case y: (Inr u)
    with f1 have ex: "disk w1 op \<noteq> None" by simp
    note f2 = write_at_frame [of op w1 0 bs]
    show ?thesis
    proof (cases r)
      case None
      with assms Inr rb o y have "x = Inr ()" "w' = write_at op 0 bs w1"
        by (simp_all add: image_save_def)
      with f1 f2 ex show ?thesis using only_touches_trans by blast
    next
      case (Some e)
      with assms Inr rb o y have x: "x = Inl e"
        by (simp add: image_save_def split: if_splits)
      from Some assms Inr rb o y
      have "w' = w1\<lparr>disk := (disk w1)(op := None)\<rparr> \<or> w' = write_at op 0 bs w1"
        by (simp add: image_save_def split: if_splits)
      then have "only_touches op w1 w'"
        using f2 by (auto simp: only_touches_def)
      with f1 x show ?thesis using only_touches_trans by blast
    qed
  qed
qed

lemma clean_image_frame:
  assumes "clean_image_metadata E w fp op = (r, w')"
  shows "only_touches (or_path op fp) w w' \<and> (fst r \<longrightarrow> disk w' (or_path op fp) \<noteq> None)"
proof -
  { fix f img data 
    assume a: "PIL_AVAILABLE E" "open_rb (disk w) fp = Inr f" "Image_open E (content f) = Inr img"
      "img_getdata img = Inr data"
    obtain x w1 where s: "image_save E w (Image_new (img_mode img) (img_size img) data) (or_path op fp) = (x, w1)"
      by (cases "image_save E w (Image_new (img_mode img) (img_size img) data) (or_path op fp)")
    note f = image_save_frame [OF s]
    from assms a s have "w' = w1" "fst r \<longrightarrow> x = Inr ()"
      by (cases x; simp add: clean_image_metadata_def Let_def; fastforce)+
    with f have ?thesis by simp }
  moreover
  { assume "\<not> (\<exists>f img data. PIL_AVAILABLE E \<and> open_rb (disk w) fp = Inr f
       \<and> Image_open E (content f) = Inr img \<and> img_getdata img = Inr data)"
    with assms have "w' = w" "\<not> fst r"
      by (auto simp: clean_image_metadata_def Let_def split: sum.splits if_splits)
    then have ?thesis by (simp add: only_touches_refl) }
  ultimately show ?thesis by blast
qed


lemma copy2_frame:
  assumes "copy2 w src dst = (x, w')"
  shows "only_touches dst w w' \<and> (x = Inr () \<longrightarrow> disk w' dst \<noteq> None)"
proof (cases "src \<noteq> dst \<and> (\<exists>f. open_rb (disk w) src = Inr f)")
  case False
  with assms have "w' = w" "x \<noteq> Inr ()"
    by (auto simp: copy2_def split: sum.splits if_splits)
  then show ?thesis by (simp add: only_touches_refl)
next
  case True
  then obtain f where ne: "src \<noteq> dst" and f: "open_rb (disk w) src = Inr f" by blast
  obtain y w1 where o: "open_wb w dst = (y, w1)" by (cases "open_wb w dst")
  note f1 = open_wb_frame [OF o]
  show ?thesis
  proof (cases y)
    case (Inl e)
    with assms ne f o f1 show ?thesis by (auto simp: copy2_def)
  next
    case y: (Inr u)
    note f2 = write_at_frame [of dst w1 0 "readable_prefix f"]
    show ?thesis
    proof (cases "file_read f 0 (length (content f))")
      case (Inl e)
      with assms ne f o y have "x = Inl e" "w' = write_at dst 0 (readable_prefix f) w1"
        by (auto simp: copy2_def)
      with f1 f2 show ?thesis using only_touches_trans by blast
    next
      case (Inr data)
      with assms ne f o y have "x = Inr ()" "only_touches dst w1 w'" "disk w' dst \<noteq> None"
        by (auto simp: copy2_def only_touches_def)
      with f1 show ?thesis using only_touches_trans by blast
    qed
  qed
qed

lemma rewrite_file_frame:
  "rewrite_file g w op = (x, w') \<Longrightarrow>
   only_touches op w w' \<and> (disk w op \<noteq> None \<longrightarrow> disk w' op \<noteq> None)"
  by (auto simp: rewrite_file_def only_touches_def split: option.splits if_splits sum.splits)

lemma clean_pdf_frame:
  assumes "clean_pdf_metadata E w fp op = (r, w')"
  shows "only_touches (or_path op (fp @ ''.cleaned.pdf'')) w w'
     \<and> (fst r \<longrightarrow> disk w' (or_path op (fp @ ''.cleaned.pdf'')) \<noteq> None)"
proof -
  let ?op = "or_path op (fp @ ''.cleaned.pdf'')"
  { fix f reader pages
    assume a: "PYPDF2_AVAILABLE E" "open_rb (disk w) fp = Inr f"
      "PdfReader E (content f) = Inr reader" "pdf_pages reader = Inr pages"
    obtain y w1 where o: "open_wb w ?op = (y, w1)" by (cases "open_wb w ?op")
    note f1 = open_wb_frame [OF o]
    obtain eo bs where wr: "PdfWriter_write E pages = (eo, bs)"
      by (cases "PdfWriter_write E pages")
    note f2 = write_at_frame [of ?op w1 0 bs]
    have ?thesis
    proof (cases y)
      case (Inl e)
      with assms a o have "w' = w1" "\<not> fst r"
        by (auto simp: clean_pdf_metadata_def Let_def)
      with f1 show ?thesis by simp
    next
      case (Inr u)
      with assms a o wr have "w' = write_at ?op 0 bs w1"
        by (cases eo) (auto simp: clean_pdf_metadata_def Let_def)
      moreover from Inr f1 have "disk w1 ?op \<noteq> None" by simp
      ultimately show ?thesis using f1 f2 only_touches_trans by blast
    qed }
  moreover
  { assume "\<not> (\<exists>f reader pages. PYPDF2_AVAILABLE E \<and> open_rb (disk w) fp = Inr f
       \<and> PdfReader E (content f) = Inr reader \<and> pdf_pages reader = Inr pages)"
    with assms have "w' = w" "\<not> fst r"
      by (auto simp: clean_pdf_metadata_def Let_def split: sum.splits if_splits)
    then have ?thesis by (simp add: only_touches_refl) }
  ultimately show ?thesis by blast
qed

lemma clean_audio_frame:
  assumes "clean_audio_metadata E w fp op = (r, w')"
  shows "only_touches (or_path op (fp @ ''.cleaned'' @ suffix fp)) w w'
     \<and> (fst r \<longrightarrow> disk w' (or_path op (fp @ ''.cleaned'' @ suffix fp)) \<noteq> None)"
proof (cases "MUTAGEN_AVAILABLE E")
  case False
  with assms have "w' = w" "\<not> fst r" by (auto simp: clean_audio_metadata_def)
  then show ?thesis by (simp add: only_touches_refl)
next
  case av: True
  let ?op = "or_path op (fp @ ''.cleaned'' @ suffix fp)"
  obtain x w1 where c: "copy2 w fp ?op = (x, w1)" by (cases "copy2 w fp ?op")
  note f1 = copy2_frame [OF c]
  show ?thesis
  proof (cases x)
    case (Inl e)
    with assms av c have "w' = w1" "\<not> fst r"
      by (auto simp: clean_audio_metadata_def Let_def)
    with f1 show ?thesis by simp
  next
    case x: (Inr u)
    with f1 have ex1: "disk w1 ?op \<noteq> None" by simp
    obtain y w2 where d: "rewrite_file (mutagen_delete E) w1 ?op = (y, w2)"
      by (cases "rewrite_file (mutagen_delete E) w1 ?op")
    note f2 = rewrite_file_frame [OF d]
    obtain z w3 where s: "rewrite_file (mutagen_save E) w2 ?op = (z, w3)"
      by (cases "rewrite_file (mutagen_save E) w2 ?op")
    note f3 = rewrite_file_frame [OF s]
    from assms av c x d s have "w' = w1 \<or> w' = w2 \<or> w' = w3"
      by (auto simp: clean_audio_metadata_def Let_def split: sum.splits if_splits)
    moreover have "only_touches ?op w w2" "only_touches ?op w w3"
      "disk w2 ?op \<noteq> None" "disk w3 ?op \<noteq> None"
      using f1 f2 f3 ex1 only_touches_trans by blast+
    ultimately show ?thesis using f1 ex1 by blast
  qed
qed

subsection \<open>Clean copy\<close>

lemma only_touches_header: "only_touches op (cleaning_header w) w' = only_touches op w w'"
  by (simp add: cleaning_header_def only_touches_print_iff)

lemma disk_report_outcome: "disk (report_outcome r w) = disk w"
  by (simp add: report_outcome_def print_def)

lemma length_suffix_le: "length (suffix fp) \<le> length fp"
proof -
  have "length (path_name fp) \<le> length fp"
    unfolding path_name_def using length_takeWhile_le [of _ "rev fp"] by simp
  moreover have "length (suffix fp) \<le> length (path_name fp)"
    by (simp add: suffix_def Let_def)
  ultimately show ?thesis by simp
qed

lemma stem_target_differs: "without_suffix fp @ ''.cleaned'' @ lower (suffix fp) \<noteq> fp"
proof -
  have "length (without_suffix fp @ ''.cleaned'' @ lower (suffix fp)) = length fp + 8"
    using length_suffix_le [of fp] by (simp add: without_suffix_def lower_def)
  moreover have "length fp + 8 \<noteq> length fp" by simp
  ultimately show ?thesis by metis
qed

lemma copy_is_cleaning_action: "''clean_copy'' \<in> set [''clean_copy'', ''clean_overwrite'']"
  by simp


lemma or_path_Some: "t \<noteq> [] \<Longrightarrow> or_path (Some t) d = t"
  by (simp add: or_path_def)

lemma perform_copy_image:
  assumes "lower (suffix fp) \<in> set image_exts"
  shows "perform_cleaning E w fp ''clean_copy'' =
     (case clean_image_metadata E (cleaning_header w) fp
             (Some (without_suffix fp @ ''.cleaned'' @ lower (suffix fp))) of
        (r, w') \<Rightarrow> (Inr (), report_outcome r w'))"
  unfolding perform_cleaning_def using assms copy_is_cleaning_action
  by (simp add: Let_def cleaning_header_def del: set_simps)

lemma image_ext_not_pdf: "ext \<in> set image_exts \<Longrightarrow> ext \<noteq> ''.pdf''"
  by (auto simp: image_exts_def)

lemma audio_ext_not_image_pdf:
  "ext \<in> set audio_clean_exts \<Longrightarrow> ext \<notin> set image_exts \<and> ext \<noteq> ''.pdf''"
  by (auto simp: image_exts_def audio_clean_exts_def)

lemma perform_copy_pdf:
  assumes "lower (suffix fp) = ''.pdf''"
  shows "perform_cleaning E w fp ''clean_copy'' =
     (case clean_pdf_metadata E (cleaning_header w) fp None of
        (r, w') \<Rightarrow> (Inr (), report_outcome r w'))"
proof -
  have "''.pdf'' \<notin> set image_exts" by (simp add: image_exts_def)
  with assms copy_is_cleaning_action show ?thesis
    unfolding perform_cleaning_def
    by (simp add: Let_def cleaning_header_def del: set_simps)
qed

lemma perform_copy_audio:
  assumes "lower (suffix fp) \<in> set audio_clean_exts"
  shows "perform_cleaning E w fp ''clean_copy'' =
     (case clean_audio_metadata E (cleaning_header w) fp
             (Some (without_suffix fp @ ''.cleaned'' @ lower (suffix fp))) of
        (r, w') \<Rightarrow> (Inr (), report_outcome r w'))"
  unfolding perform_cleaning_def
  using assms audio_ext_not_image_pdf [OF assms] copy_is_cleaning_action
  by (simp add: Let_def cleaning_header_def del: set_simps)


text \<open>
  What a cleaner that reports success has written: the image saved is built from the
  mode, the size and the pixels of the original and nothing else; the PDF written holds
  the pages of the original; the audio copy holds the bytes of the original, rewritten
  by \<open>delete()\<close> and \<open>save()\<close> when it had tags.
\<close>

lemma clean_image_writes_stripped:
  assumes "clean_image_metadata E w fp (Some t) = (r, w')" and "fst r" and "t \<noteq> []"
  shows "\<exists>f img data bs.
           open_rb (disk w) fp = Inr f \<and> Image_open E (content f) = Inr img
         \<and> img_getdata img = Inr data
         \<and> Image_save E (Image_new (img_mode img) (img_size img) data) t = Inr (None, bs)
         \<and> map_option content (disk w' t) = Some bs"
  using assms
  by (auto simp: clean_image_metadata_def or_path_def Let_def image_save_def open_wb_def
      write_at_def new_file_def
      split: if_splits sum.splits prod.splits option.splits)

lemma clean_pdf_writes_pages:
  assumes "clean_pdf_metadata E w fp op = (r, w')" and "fst r"
  shows "\<exists>f reader pages bs.
           open_rb (disk w) fp = Inr f \<and> PdfReader E (content f) = Inr reader
         \<and> pdf_pages reader = Inr pages \<and> PdfWriter_write E pages = (None, bs)
         \<and> map_option content (disk w' (or_path op (fp @ ''.cleaned.pdf''))) = Some bs"
  using assms
  by (auto simp: clean_pdf_metadata_def Let_def open_wb_def write_at_def new_file_def
      split: if_splits sum.splits prod.splits option.splits)


lemma copy2_content:
  assumes "copy2 w src dst = (Inr (), w1)"
  shows "\<exists>f. open_rb (disk w) src = Inr f
     \<and> disk w1 dst = Some \<lparr>content = content f, mtime = mtime f, readable = readable f,
                            writable = writable f, read_fault = None\<rparr>"
proof -
  have rd: "file_read f 0 (length (content f)) = Inr data \<Longrightarrow> data = content f" for f data
    by (auto simp: file_read_def split: option.splits if_splits)
  from assms show ?thesis
    by (auto simp: copy2_def dest!: rd split: if_splits sum.splits prod.splits)
qed

lemma clean_audio_writes_untagged:
  assumes "clean_audio_metadata E w fp (Some t) = (r, w')" and "fst r" and "t \<noteq> []"
  shows "\<exists>f a. open_rb (disk w) fp = Inr f \<and> mutagen_File E (content f) = Inr a
     \<and> (if has_tags a
         then \<exists>b1 b2. mutagen_delete E (content f) = Inr b1 \<and> mutagen_save E b1 = Inr b2
                \<and> map_option content (disk w' t) = Some b2
         else map_option content (disk w' t) = Some (content f))"
proof -
  from assms have av: "MUTAGEN_AVAILABLE E"
    by (auto simp: clean_audio_metadata_def split: if_splits)
  obtain x w1 where c: "copy2 w fp t = (x, w1)" by (cases "copy2 w fp t")
  from assms av c have x: "x = Inr ()"
    by (cases x) (auto simp: clean_audio_metadata_def or_path_def Let_def)
  from copy2_content [OF c [unfolded x]] obtain f where
    f: "open_rb (disk w) fp = Inr f"
    and d: "disk w1 t = Some \<lparr>content = content f, mtime = mtime f, readable = readable f,
                            writable = writable f, read_fault = None\<rparr>"
    by blast
  from f have rf: "readable f" by (auto simp: open_rb_def split: option.splits if_splits)
  let ?g = "\<lparr>content = content f, mtime = mtime f, readable = readable f,
                            writable = writable f, read_fault = None\<rparr>"
  from d rf have o: "open_rb (disk w1) t = Inr ?g" by (simp add: open_rb_def)
  from assms av c x o obtain a where a: "mutagen_File E (content f) = Inr a"
    by (cases "mutagen_File E (content f)") (auto simp: clean_audio_metadata_def or_path_def Let_def)
  show ?thesis
  proof (cases "has_tags a")
    case False
    with assms av c x o a have "w' = w1"
      by (auto simp: clean_audio_metadata_def or_path_def Let_def)
    with f a d False show ?thesis by auto
  next
    case True
    with assms(1,2) assms(3) av c x o a d
    have "\<exists>b1 b2. mutagen_delete E (content f) = Inr b1 \<and> mutagen_save E b1 = Inr b2
                \<and> map_option content (disk w' t) = Some b2"
      by (auto simp: clean_audio_metadata_def or_path_def Let_def rewrite_file_def
          split: if_splits sum.splits)
    with f a True show ?thesis by auto
  qed
qed

text \<open>
  For a file whose lowercased extension is one of the cleaning sets, clean-copy returns
  normally and touches one path only: the original path followed by \<open>.cleaned.pdf\<close> for
  a PDF, the path without its suffix followed by \<open>.cleaned\<close> and the lowercased
  extension for an image or an audio file.  That path is never the original one, so the
  original file stays as it was; when the cleaner reports success, the path exists.
\<close>

lemma clean_copy_touches_one_path:
  assumes "lower (suffix fp) \<in> set image_exts \<union> {''.pdf''} \<union> set audio_clean_exts"
  shows "let target = (if lower (suffix fp) = ''.pdf'' then fp @ ''.cleaned.pdf''
                       else without_suffix fp @ ''.cleaned'' @ lower (suffix fp))
         in target \<noteq> fp
          \<and> (\<exists>r w1. perform_cleaning E w fp ''clean_copy'' = (Inr (), report_outcome r w1)
                \<and> only_touches target w w1
                \<and> (fst r \<longrightarrow> disk w1 target \<noteq> None))
          \<and> disk (snd (perform_cleaning E w fp ''clean_copy'')) fp = disk w fp"
proof -
  define ext where "ext = lower (suffix fp)"
  define stem where "stem = without_suffix fp @ ''.cleaned'' @ ext"
  define target where "target = (if ext = ''.pdf'' then fp @ ''.cleaned.pdf'' else stem)"
  define res where "res = perform_cleaning E w fp ''clean_copy''"
  have ne: "target \<noteq> fp"
    using stem_target_differs [of fp] by (simp add: target_def stem_def ext_def)
  have st: "or_path (Some stem) d = stem" for d
    by (simp add: or_path_def stem_def)
  have ex: "\<exists>r w1. res = (Inr (), report_outcome r w1)
                \<and> only_touches target w w1 \<and> (fst r \<longrightarrow> disk w1 target \<noteq> None)"
  proof -
    consider (img) "ext \<in> set image_exts" | (pdf) "ext = ''.pdf''"
      | (aud) "ext \<in> set audio_clean_exts"
      using assms unfolding ext_def by blast
    then show ?thesis
    proof cases
      case img
      obtain r w1 where c: "clean_image_metadata E (cleaning_header w) fp (Some stem) = (r, w1)"
        by (cases "clean_image_metadata E (cleaning_header w) fp (Some stem)")
      from image_ext_not_pdf [OF img] have tg: "target = stem" by (simp add: target_def)
      from clean_image_frame [OF c]
      have "only_touches target w w1 \<and> (fst r \<longrightarrow> disk w1 target \<noteq> None)"
        by (simp add: st tg only_touches_header)
      moreover from perform_copy_image [of fp E w] img c
      have "res = (Inr (), report_outcome r w1)"
        by (simp add: res_def ext_def stem_def)
      ultimately show ?thesis by blast
    next
      case pdf
      obtain r w1 where c: "clean_pdf_metadata E (cleaning_header w) fp None = (r, w1)"
        by (cases "clean_pdf_metadata E (cleaning_header w) fp None")
      from pdf have tg: "target = fp @ ''.cleaned.pdf''" by (simp add: target_def)
      from clean_pdf_frame [OF c]
      have "only_touches target w w1 \<and> (fst r \<longrightarrow> disk w1 target \<noteq> None)"
        by (simp add: or_path_def tg only_touches_header)
      moreover from perform_copy_pdf [of fp E w] pdf c
      have "res = (Inr (), report_outcome r w1)"
        by (simp add: res_def ext_def)
      ultimately show ?thesis by blast
    next
      case aud
      obtain r w1 where c: "clean_audio_metadata E (cleaning_header w) fp (Some stem) = (r, w1)"
        by (cases "clean_audio_metadata E (cleaning_header w) fp (Some stem)")
      from audio_ext_not_image_pdf [OF aud] have tg: "target = stem" by (simp add: target_def)
      from clean_audio_frame [OF c]
      have "only_touches target w w1 \<and> (fst r \<longrightarrow> disk w1 target \<noteq> None)"
        by (simp add: st tg only_touches_header)
      moreover from perform_copy_audio [of fp E w] aud c
      have "res = (Inr (), report_outcome r w1)"
        by (simp add: res_def ext_def stem_def)
      ultimately show ?thesis by blast
    qed
  qed
  then obtain r w1 where p: "res = (Inr (), report_outcome r w1)"
    and t: "only_touches target w w1" by blast
  from t ne have "disk w1 fp = disk w fp" by (simp add: only_touches_def)
  with p have "disk (snd res) fp = disk w fp"
    by (simp add: disk_report_outcome)
  with ne ex have "target \<noteq> fp
          \<and> (\<exists>r w1. res = (Inr (), report_outcome r w1)
                \<and> only_touches target w w1
                \<and> (fst r \<longrightarrow> disk w1 target \<noteq> None))
          \<and> disk (snd res) fp = disk w fp" by blast
  then show ?thesis
    unfolding Let_def target_def stem_def ext_def res_def .
qed


lemma suffix_photo: "suffix ''pics/Photo.JPG'' = ''.JPG''"
  "lower ''.JPG'' = ''.jpg''" "without_suffix ''pics/Photo.JPG'' = ''pics/Photo''"
  by (simp_all add: lower_def suffix_def path_name_def rfind_dot_def lower_char_def Let_def
      without_suffix_def)

lemma clean_copy_image_example:
  "lower (suffix ''pics/Photo.JPG'') = ''.jpg''
   \<and> without_suffix ''pics/Photo.JPG'' @ ''.cleaned'' @ lower (suffix ''pics/Photo.JPG'')
       = ''pics/Photo.cleaned.jpg''
   \<and> disk (snd (perform_cleaning demo_env (demo_world ''pics/Photo.JPG'' [1, 2])
                 ''pics/Photo.JPG'' ''clean_copy'')) ''pics/Photo.JPG''
       = Some (demo_file [1, 2])
   \<and> map_option content
        (disk (snd (perform_cleaning demo_env (demo_world ''pics/Photo.JPG'' [1, 2])
                 ''pics/Photo.JPG'' ''clean_copy'')) ''pics/Photo.cleaned.jpg'')
       = Some [0x89, 0x50]"
proof -
  have x: "lower (suffix ''pics/Photo.JPG'') = ''.jpg''"
    by (simp add: suffix_photo)
  have i: "lower (suffix ''pics/Photo.JPG'') \<in> set image_exts \<union> {''.pdf''} \<union> set audio_clean_exts"
    by (simp add: x image_exts_def)
  have i': "lower (suffix ''pics/Photo.JPG'') \<in> set image_exts"
    by (simp add: x image_exts_def)
  have c: "clean_image_metadata demo_env (cleaning_header (demo_world ''pics/Photo.JPG'' [1, 2]))
      ''pics/Photo.JPG'' (Some ''pics/Photo.cleaned.jpg'') = (r, w1) \<Longrightarrow>
      map_option content (disk w1 ''pics/Photo.cleaned.jpg'') = Some [0x89, 0x50]" for r w1
    by (auto simp: clean_image_metadata_def cleaning_header_def print_def demo_world_def demo_env_def
        open_rb_def demo_file_def or_path_def demo_image_def image_save_def open_wb_def
        new_file_def write_at_def Image_new_def Let_def)
  have e: "map_option content
        (disk (snd (perform_cleaning demo_env (demo_world ''pics/Photo.JPG'' [1, 2])
                 ''pics/Photo.JPG'' ''clean_copy'')) ''pics/Photo.cleaned.jpg'')
       = Some [0x89, 0x50]"
    using c by (simp add: perform_copy_image [OF i'] suffix_photo disk_report_outcome
        split: prod.splits)
  from clean_copy_touches_one_path [OF i, of demo_env "demo_world ''pics/Photo.JPG'' [1, 2]"] e
  show ?thesis
    by (simp add: Let_def suffix_photo demo_world_def)
qed

lemma suffix_doc: "suffix ''doc.pdf'' = ''.pdf''" "lower ''.pdf'' = ''.pdf''"
  "without_suffix ''doc.pdf'' = ''doc''"
  by (simp_all add: lower_def suffix_def path_name_def rfind_dot_def lower_char_def Let_def
      without_suffix_def)

subsection \<open>Clean overwrite\<close>

lemma overwrite_is_cleaning_action:
  "''clean_overwrite'' \<in> set [''clean_copy'', ''clean_overwrite'']"
  by simp

lemma perform_overwrite_image:
  assumes "lower (suffix fp) \<in> set image_exts"
  shows "perform_cleaning E w fp ''clean_overwrite'' =
     (case clean_image_metadata E (cleaning_header w) fp None of
        (r, w') \<Rightarrow> (Inr (), report_outcome r w'))"
  unfolding perform_cleaning_def using assms overwrite_is_cleaning_action
  by (simp add: Let_def cleaning_header_def del: set_simps)

lemma perform_overwrite_audio:
  assumes "lower (suffix fp) \<in> set audio_clean_exts"
  shows "perform_cleaning E w fp ''clean_overwrite'' =
     (case clean_audio_metadata E (cleaning_header w) fp None of
        (r, w') \<Rightarrow> (Inr (), report_outcome r w'))"
  unfolding perform_cleaning_def
  using assms audio_ext_not_image_pdf [OF assms] overwrite_is_cleaning_action
  by (simp add: Let_def cleaning_header_def del: set_simps)

text \<open>Clean-overwrite of an audio file never changes the file it was asked to overwrite.\<close>

lemma overwrite_audio_keeps_original:
  assumes "lower (suffix fp) \<in> set audio_clean_exts"
  shows "disk (snd (perform_cleaning E w fp ''clean_overwrite'')) fp = disk w fp"
proof -
  obtain r w1 where c: "clean_audio_metadata E (cleaning_header w) fp None = (r, w1)"
    by (cases "clean_audio_metadata E (cleaning_header w) fp None")
  have ne: "fp @ ''.cleaned'' @ suffix fp \<noteq> fp" by simp
  from clean_audio_frame [OF c] have "only_touches (fp @ ''.cleaned'' @ suffix fp) w w1"
    by (simp add: or_path_def only_touches_header)
  with ne have "disk w1 fp = disk w fp"
    unfolding only_touches_def by metis
  with c show ?thesis
    by (simp add: perform_overwrite_audio [OF assms] disk_report_outcome)
qed

lemma perform_overwrite_pdf:
  assumes "lower (suffix fp) = ''.pdf''"
  shows "perform_cleaning E w fp ''clean_overwrite'' =
     (case clean_pdf_metadata E (cleaning_header w) fp (Some (fp @ ''.temp.pdf'')) of
        (r, w1) \<Rightarrow>
          if fst r
          then (case os_replace w1 (fp @ ''.temp.pdf'') fp of
                  (Inl e, w2) \<Rightarrow> (Inl e, w2)
                | (Inr u, w2) \<Rightarrow>
                    (Inr (),
                     report_outcome (True, ''PDF metadata cleaned (original overwritten)'') w2))
          else (Inr (), report_outcome r w1))"
proof -
  have n: "''.pdf'' \<notin> set image_exts" by (simp add: image_exts_def)
  obtain r w1 where c: "clean_pdf_metadata E (cleaning_header w) fp (Some (fp @ ''.temp.pdf'')) = (r, w1)"
    by (cases "clean_pdf_metadata E (cleaning_header w) fp (Some (fp @ ''.temp.pdf''))")
  obtain y w2 where o: "os_replace w1 (fp @ ''.temp.pdf'') fp = (y, w2)"
    by (cases "os_replace w1 (fp @ ''.temp.pdf'') fp")
  from assms overwrite_is_cleaning_action n c o show ?thesis
    unfolding perform_cleaning_def
    by (cases y) (simp_all add: Let_def cleaning_header_def del: set_simps)
qed

text \<open>
  The PDF branch does what the other two do not: the cleaner writes to the temporary
  path only, so the original is intact whatever happens, and after a success one
  \<open>os.replace\<close> puts the finished file in its place.
\<close>

lemma overwrite_pdf_temp_then_rename:
  assumes x: "lower (suffix fp) = ''.pdf''"
    and c: "clean_pdf_metadata E (cleaning_header w) fp (Some (fp @ ''.temp.pdf'')) = (r, w1)"
  shows "disk w1 fp = disk w fp
     \<and> (\<not> fst r \<longrightarrow> perform_cleaning E w fp ''clean_overwrite'' = (Inr (), report_outcome r w1))
     \<and> (fst r \<longrightarrow> (\<exists>f. disk w1 (fp @ ''.temp.pdf'') = Some f
            \<and> perform_cleaning E w fp ''clean_overwrite'' =
                (Inr (), report_outcome (True, ''PDF metadata cleaned (original overwritten)'')
                   (log_event (Replace (fp @ ''.temp.pdf'') fp)
                      (w1\<lparr>disk := ((disk w1)(fp @ ''.temp.pdf'' := None))(fp \<mapsto> f)\<rparr>)))))"
proof -
  have ne: "fp @ ''.temp.pdf'' \<noteq> fp" by simp
  from clean_pdf_frame [OF c]
  have t: "only_touches (fp @ ''.temp.pdf'') w w1"
    and s: "fst r \<longrightarrow> disk w1 (fp @ ''.temp.pdf'') \<noteq> None"
    by (simp_all add: or_path_def only_touches_header)
  from t ne have d: "disk w1 fp = disk w fp"
    unfolding only_touches_def by metis
  have n: "\<not> fst r \<longrightarrow> perform_cleaning E w fp ''clean_overwrite'' = (Inr (), report_outcome r w1)"
    using c by (simp add: perform_overwrite_pdf [OF x])
  have y: "fst r \<longrightarrow> (\<exists>f. disk w1 (fp @ ''.temp.pdf'') = Some f
            \<and> perform_cleaning E w fp ''clean_overwrite'' =
                (Inr (), report_outcome (True, ''PDF metadata cleaned (original overwritten)'')
                   (log_event (Replace (fp @ ''.temp.pdf'') fp)
                      (w1\<lparr>disk := ((disk w1)(fp @ ''.temp.pdf'' := None))(fp \<mapsto> f)\<rparr>))))"
  proof
    assume r: "fst r"
    with s obtain f where f: "disk w1 (fp @ ''.temp.pdf'') = Some f" by blast
    with c r show "\<exists>f. disk w1 (fp @ ''.temp.pdf'') = Some f
            \<and> perform_cleaning E w fp ''clean_overwrite'' =
                (Inr (), report_outcome (True, ''PDF metadata cleaned (original overwritten)'')
                   (log_event (Replace (fp @ ''.temp.pdf'') fp)
                      (w1\<lparr>disk := ((disk w1)(fp @ ''.temp.pdf'' := None))(fp \<mapsto> f)\<rparr>)))"
      by (simp add: perform_overwrite_pdf [OF x] os_replace_def)
  qed
  from d n y show ?thesis by blast
qed

lemma suffix_song: "suffix ''song.mp3'' = ''.mp3''" "lower ''.mp3'' = ''.mp3''"
  by (simp_all add: lower_def suffix_def path_name_def rfind_dot_def lower_char_def Let_def)

lemma suffix_png: "suffix ''photo.png'' = ''.png''" "lower ''.png'' = ''.png''"
  by (simp_all add: lower_def suffix_def path_name_def rfind_dot_def lower_char_def Let_def)

text \<open>
  C1, evaluated where it fails.  Clean-overwrite of the tagged audio file \<open>song.mp3\<close>
  leaves \<open>song.mp3\<close> as it was and puts the cleaned bytes in \<open>song.mp3.cleaned.mp3\<close>;
  no rename is made.  Clean-overwrite of the image \<open>photo.png\<close> on a full disk saves
  straight into \<open>photo.png\<close>: the failed save leaves the one byte it wrote in place of
  the original three, and again no rename is made.
\<close>

theorem clean_overwrite_not_atomic:
  "disk (snd (perform_cleaning demo_env (demo_world ''song.mp3'' [0x49, 5, 6]) ''song.mp3''
                ''clean_overwrite'')) ''song.mp3'' = Some (demo_file [0x49, 5, 6])
   \<and> map_option content
        (disk (snd (perform_cleaning demo_env (demo_world ''song.mp3'' [0x49, 5, 6]) ''song.mp3''
                ''clean_overwrite'')) ''song.mp3.cleaned.mp3'') = Some [5, 6]
   \<and> trace (snd (perform_cleaning demo_env (demo_world ''song.mp3'' [0x49, 5, 6]) ''song.mp3''
                ''clean_overwrite'')) = []
   \<and> map_option content
        (disk (snd (perform_cleaning disk_full_env (demo_world ''photo.png'' [1, 2, 3])
                ''photo.png'' ''clean_overwrite'')) ''photo.png'') = Some [0x89]
   \<and> trace (snd (perform_cleaning disk_full_env (demo_world ''photo.png'' [1, 2, 3])
                ''photo.png'' ''clean_overwrite'')) = []"
proof -
  have a: "lower (suffix ''song.mp3'') \<in> set audio_clean_exts"
    by (simp add: suffix_song audio_clean_exts_def)
  have i: "lower (suffix ''photo.png'') \<in> set image_exts"
    by (simp add: suffix_png image_exts_def)
  have ca: "clean_audio_metadata demo_env (cleaning_header (demo_world ''song.mp3'' [0x49, 5, 6]))
      ''song.mp3'' None = (r, w1) \<Longrightarrow>
      disk w1 ''song.mp3'' = Some (demo_file [0x49, 5, 6])
      \<and> map_option content (disk w1 ''song.mp3.cleaned.mp3'') = Some [5, 6]
      \<and> trace w1 = []" for r w1
    by (auto simp: clean_audio_metadata_def cleaning_header_def print_def demo_world_def
        demo_env_def open_rb_def demo_file_def or_path_def demo_audio_def copy2_def open_wb_def
        new_file_def write_at_def file_read_def rewrite_file_def has_tags_def suffix_song Let_def)
  have ci: "clean_image_metadata disk_full_env (cleaning_header (demo_world ''photo.png'' [1, 2, 3]))
      ''photo.png'' None = (r, w1) \<Longrightarrow>
      map_option content (disk w1 ''photo.png'') = Some [0x89] \<and> trace w1 = []" for r w1
    by (auto simp: clean_image_metadata_def cleaning_header_def print_def demo_world_def
        disk_full_env_def demo_env_def open_rb_def demo_file_def or_path_def demo_image_def
        image_save_def open_wb_def new_file_def write_at_def Image_new_def Let_def)
  have tr: "trace (report_outcome r w1) = trace w1" for r w1
    by (simp add: report_outcome_def print_def)
  show ?thesis
    using ca ci
    by (simp add: perform_overwrite_audio [OF a] perform_overwrite_image [OF i]
        disk_report_outcome tr split: prod.splits)
qed

subsection \<open>Extractors\<close>

lemma od_set_append: "k \<notin> set (keys m) \<Longrightarrow> od_set k v m = m @ [(k, v)]"
  by (induction m) (auto simp: keys_def)

lemma pdf_body_raised:
  assumes "pdf_body E files fp = (Some e, m0)"
  shows "PStr ''Error'' \<notin> set (keys m0)"
  using assms
  by (auto simp: pdf_body_def keys_def Let_def split: sum.splits option.splits if_splits)

lemma audio_steps_raised:
  assumes "run_steps (audio_steps E a) [] = (Some e, m0)"
  shows "PStr ''Error'' \<notin> set (keys m0)"
proof -
  have "m0 = [] \<or> (\<exists>v. m0 = [(PStr ''Duration'', v)])"
    using assms
    by (auto simp: audio_steps_def split: option.splits sum.splits if_splits)
  then show ?thesis by (auto simp: keys_def)
qed

lemma audio_body_raised:
  assumes "audio_body E files fp = (Some e, m0)"
  shows "PStr ''Error'' \<notin> set (keys m0)"
proof (cases "open_rb files fp")
  case (Inl x)
  with assms show ?thesis by (auto simp: audio_body_def keys_def)
next
  case (Inr f)
  show ?thesis
  proof (cases "mutagen_File E (content f)")
    case (Inl x)
    with assms Inr show ?thesis by (auto simp: audio_body_def keys_def)
  next
    case r: (Inr ao)
    show ?thesis
    proof (cases ao)
      case None
      with assms Inr r show ?thesis by (simp add: audio_body_def)
    next
      case (Some a)
      with assms Inr r have "run_steps (audio_steps E a) [] = (Some e, m0)"
        by (simp add: audio_body_def)
      then show ?thesis by (rule audio_steps_raised)
    qed
  qed
qed


lemma image_extractor_shape:
  "\<exists>r. get_image_exif_metadata E files fp = Inr r
     \<and> (\<not> PIL_AVAILABLE E \<longrightarrow>
          r = Some [(PStr ''Note'',
                     PStr ''Pillow library not installed. Cannot extract EXIF metadata.'')])
     \<and> (PIL_AVAILABLE E \<longrightarrow>
          (case exif_body E files fp of
             Inr exif \<Rightarrow> r = Some exif
           | Inl e \<Rightarrow>
               if is_IOError e then r = None
               else r = Some [(PStr ''Error'', PStr (''EXIF extraction error: '' @ str_exn e))]))"
  by (simp add: get_image_exif_metadata_def split: sum.splits)

lemma pdf_extractor_shape:
  "\<exists>m. get_pdf_metadata E files fp = Inr m
     \<and> (\<not> PYPDF2_AVAILABLE E \<longrightarrow>
          m = [(PStr ''Note'', PStr ''PyPDF2 not installed. Install with: pip install PyPDF2'')])
     \<and> (PYPDF2_AVAILABLE E \<longrightarrow>
          (case pdf_body E files fp of
             (None, m0) \<Rightarrow> m = m0
           | (Some e, m0) \<Rightarrow>
               m = m0 @ [(PStr ''Error'', PStr (''PDF extraction error: '' @ str_exn e))]
               \<and> PStr ''Error'' \<notin> set (keys m0)))"
proof (cases "pdf_body E files fp")
  case (Pair eo m0)
  show ?thesis
  proof (cases eo)
    case None
    with Pair show ?thesis by (simp add: get_pdf_metadata_def)
  next
    case (Some e)
    with Pair have k: "PStr ''Error'' \<notin> set (keys m0)" by (simp add: pdf_body_raised)
    with Pair Some show ?thesis
      by (simp add: get_pdf_metadata_def pdf_error_def od_set_append)
  qed
qed

lemma audio_extractor_shape:
  "\<exists>m. get_audio_video_metadata E files fp = Inr m
     \<and> (\<not> MUTAGEN_AVAILABLE E \<longrightarrow>
          m = [(PStr ''Note'', PStr ''mutagen not installed. Install with: pip install mutagen'')])
     \<and> (MUTAGEN_AVAILABLE E \<longrightarrow>
          (case audio_body E files fp of
             (None, m0) \<Rightarrow> m = m0
           | (Some e, m0) \<Rightarrow>
               m = m0 @ [(PStr ''Error'', PStr (''Audio/video extraction error: '' @ str_exn e))]
               \<and> PStr ''Error'' \<notin> set (keys m0)))"
proof (cases "audio_body E files fp")
  case (Pair eo m0)
  show ?thesis
  proof (cases eo)
    case None
    with Pair show ?thesis by (simp add: get_audio_video_metadata_def)
  next
    case (Some e)
    with Pair have k: "PStr ''Error'' \<notin> set (keys m0)" by (simp add: audio_body_raised)
    with Pair Some show ?thesis
      by (simp add: get_audio_video_metadata_def audio_error_def od_set_append)
  qed
qed

lemma format_section_returns: "\<exists>s. format_section E files fp = Inr s"
proof -
  obtain r where i: "get_image_exif_metadata E files fp = Inr r"
    using image_extractor_shape by blast
  obtain m where p: "get_pdf_metadata E files fp = Inr m"
    using pdf_extractor_shape by blast
  obtain m' where a: "get_audio_video_metadata E files fp = Inr m'"
    using audio_extractor_shape by blast
  show ?thesis
    unfolding format_section_def Let_def using i p a
    by (cases r) (simp_all del: set_simps)
qed

text \<open>
  C5 (as amended).  None of the three extractors raises, and so the choice of the
  extractor in \<open>main\<close> does not raise either.  Without its library an extractor
  returns the single entry Note.  With it, the image extractor returns the report of
  its body, and when the body raises it returns \<open>None\<close> (no report) for an \<open>IOError\<close> and
  the single entry Error for any other exception; the PDF and the audio/video
  extractor return the report of their body, and when the body raises they return the
  fields gathered up to that point, none of them named Error, followed by one Error
  entry.
\<close>

theorem extractors_contain_failures:
  "(\<exists>r. get_image_exif_metadata E files fp = Inr r
     \<and> (\<not> PIL_AVAILABLE E \<longrightarrow>
          r = Some [(PStr ''Note'',
                     PStr ''Pillow library not installed. Cannot extract EXIF metadata.'')])
     \<and> (PIL_AVAILABLE E \<longrightarrow>
          (case exif_body E files fp of
             Inr exif \<Rightarrow> r = Some exif
           | Inl e \<Rightarrow>
               if is_IOError e then r = None
               else r = Some [(PStr ''Error'', PStr (''EXIF extraction error: '' @ str_exn e))])))
   \<and> (\<exists>m. get_pdf_metadata E files fp = Inr m
     \<and> (\<not> PYPDF2_AVAILABLE E \<longrightarrow>
          m = [(PStr ''Note'', PStr ''PyPDF2 not installed. Install with: pip install PyPDF2'')])
     \<and> (PYPDF2_AVAILABLE E \<longrightarrow>
          (case pdf_body E files fp of
             (None, m0) \<Rightarrow> m = m0
           | (Some e, m0) \<Rightarrow>
               m = m0 @ [(PStr ''Error'', PStr (''PDF extraction error: '' @ str_exn e))]
               \<and> PStr ''Error'' \<notin> set (keys m0))))
   \<and> (\<exists>m. get_audio_video_metadata E files fp = Inr m
     \<and> (\<not> MUTAGEN_AVAILABLE E \<longrightarrow>
          m = [(PStr ''Note'', PStr ''mutagen not installed. Install with: pip install mutagen'')])
     \<and> (MUTAGEN_AVAILABLE E \<longrightarrow>
          (case audio_body E files fp of
             (None, m0) \<Rightarrow> m = m0
           | (Some e, m0) \<Rightarrow>
               m = m0 @ [(PStr ''Error'', PStr (''Audio/video extraction error: '' @ str_exn e))]
               \<and> PStr ''Error'' \<notin> set (keys m0))))
   \<and> (\<exists>s. format_section E files fp = Inr s)"
  using image_extractor_shape [of E files fp] pdf_extractor_shape [of E files fp]
    audio_extractor_shape [of E files fp] format_section_returns [of E files fp]
  by (intro conjI)

text \<open>
  C5 as stated fails for the image extractor: a file that Pillow cannot open makes the
  body raise an \<open>IOError\<close>, and the extractor returns \<open>None\<close>, neither a report nor an
  error entry.
\<close>

theorem image_extractor_returns_none_counterexample:
  "PIL_AVAILABLE demo_env
   \<and> exif_body demo_env [''blank.png'' \<mapsto> demo_file []] ''blank.png''
        = Inl (IOError ''cannot identify image file'')
   \<and> get_image_exif_metadata demo_env [''blank.png'' \<mapsto> demo_file []] ''blank.png'' = Inr None"
  by (simp add: get_image_exif_metadata_def exif_body_def open_rb_def demo_file_def demo_env_def)


theorem extractors_contain_failures_witness:
  "get_image_exif_metadata faulty_env [''x.bin'' \<mapsto> demo_file [1]] ''x.bin''
     = Inr (Some [(PStr ''Note'',
                   PStr ''Pillow library not installed. Cannot extract EXIF metadata.'')])
   \<and> get_pdf_metadata faulty_env [''x.bin'' \<mapsto> demo_file [1]] ''x.bin''
     = Inr [(PStr ''Number of Pages'', PInt 1), (PStr ''Encrypted'', PBool False),
            (PStr ''Error'', PStr ''PDF extraction error: bad info'')]
   \<and> get_audio_video_metadata faulty_env [''x.bin'' \<mapsto> demo_file [1]] ''x.bin''
     = Inr [(PStr ''Duration'', PStr ''# seconds''),
            (PStr ''Error'',
             PStr ''Audio/video extraction error: unsupported operand type(s) for //'')]"
proof -
  have av: "\<not> PIL_AVAILABLE faulty_env" "PYPDF2_AVAILABLE faulty_env"
    "MUTAGEN_AVAILABLE faulty_env"
    by (simp_all add: faulty_env_def demo_env_def)
  have p: "pdf_body faulty_env [''x.bin'' \<mapsto> demo_file [1]] ''x.bin''
      = (Some (OtherError ''bad info''),
         [(PStr ''Number of Pages'', PInt 1), (PStr ''Encrypted'', PBool False)])"
    by (simp add: pdf_body_def open_rb_def demo_file_def faulty_env_def demo_env_def demo_pdf_def)
  have a: "audio_body faulty_env [''x.bin'' \<mapsto> demo_file [1]] ''x.bin''
      = (Some (OtherError ''unsupported operand type(s) for //''),
         [(PStr ''Duration'', PStr ''# seconds'')])"
    by (simp add: audio_body_def open_rb_def demo_file_def faulty_env_def demo_env_def
        demo_audio_def audio_steps_def fmt_2f_def floordiv_1000_def)
  from extractors_contain_failures [of faulty_env "[''x.bin'' \<mapsto> demo_file [1]]" "''x.bin''"]
  show ?thesis
    unfolding p a using av by auto
qed

subsection \<open>The name of the cleaned copy\<close>

text \<open>
  C4, evaluated where it fails and where it holds.  The clean copy of \<open>doc.pdf\<close> is
  written to \<open>doc.pdf.cleaned.pdf\<close>; nothing is written to \<open>doc.cleaned.pdf\<close>, the path
  made of the stem, \<open>.cleaned\<close> and the extension.  The image and the audio branch do
  use that path: the stripped copy of \<open>photo.png\<close> is \<open>photo.cleaned.png\<close>, that of
  the tagged \<open>song.mp3\<close> is \<open>song.cleaned.mp3\<close> without its tag byte.  In all three
  cases the original file is as it was.
\<close>

theorem clean_copy_pdf_wrong_path:
  "without_suffix ''doc.pdf'' @ ''.cleaned'' @ suffix ''doc.pdf'' = ''doc.cleaned.pdf''
   \<and> disk (snd (perform_cleaning demo_env (demo_world ''doc.pdf'' [1, 2]) ''doc.pdf''
                 ''clean_copy'')) ''doc.cleaned.pdf'' = None
   \<and> map_option content
        (disk (snd (perform_cleaning demo_env (demo_world ''doc.pdf'' [1, 2]) ''doc.pdf''
                 ''clean_copy'')) ''doc.pdf.cleaned.pdf'') = Some [1, 2]
   \<and> disk (snd (perform_cleaning demo_env (demo_world ''doc.pdf'' [1, 2]) ''doc.pdf''
                 ''clean_copy'')) ''doc.pdf'' = Some (demo_file [1, 2])
   \<and> without_suffix ''photo.png'' @ ''.cleaned'' @ suffix ''photo.png'' = ''photo.cleaned.png''
   \<and> map_option content
        (disk (snd (perform_cleaning demo_env (demo_world ''photo.png'' [1, 2, 3]) ''photo.png''
                 ''clean_copy'')) ''photo.cleaned.png'') = Some [0x89, 0x50]
   \<and> disk (snd (perform_cleaning demo_env (demo_world ''photo.png'' [1, 2, 3]) ''photo.png''
                 ''clean_copy'')) ''photo.png'' = Some (demo_file [1, 2, 3])
   \<and> without_suffix ''song.mp3'' @ ''.cleaned'' @ suffix ''song.mp3'' = ''song.cleaned.mp3''
   \<and> map_option content
        (disk (snd (perform_cleaning demo_env (demo_world ''song.mp3'' [0x49, 5, 6]) ''song.mp3''
                 ''clean_copy'')) ''song.cleaned.mp3'') = Some [5, 6]
   \<and> disk (snd (perform_cleaning demo_env (demo_world ''song.mp3'' [0x49, 5, 6]) ''song.mp3''
                 ''clean_copy'')) ''song.mp3'' = Some (demo_file [0x49, 5, 6])"
proof -
  have wp: "without_suffix ''photo.png'' = ''photo''" "without_suffix ''song.mp3'' = ''song''"
    by (simp_all add: without_suffix_def suffix_png suffix_song)
  have xd: "lower (suffix ''doc.pdf'') = ''.pdf''" by (simp add: suffix_doc)
  have xi: "lower (suffix ''photo.png'') \<in> set image_exts"
    by (simp add: suffix_png image_exts_def)
  have xa: "lower (suffix ''song.mp3'') \<in> set audio_clean_exts"
    by (simp add: suffix_song audio_clean_exts_def)
  have cd: "clean_pdf_metadata demo_env (cleaning_header (demo_world ''doc.pdf'' [1, 2]))
      ''doc.pdf'' None = (r, w1) \<Longrightarrow>
      disk w1 ''doc.cleaned.pdf'' = None
      \<and> map_option content (disk w1 ''doc.pdf.cleaned.pdf'') = Some [1, 2]
      \<and> disk w1 ''doc.pdf'' = Some (demo_file [1, 2])" for r w1
    by (auto simp: clean_pdf_metadata_def cleaning_header_def print_def demo_world_def demo_env_def
        open_rb_def demo_file_def or_path_def demo_pdf_def open_wb_def
        new_file_def write_at_def Let_def)
  have ci: "clean_image_metadata demo_env (cleaning_header (demo_world ''photo.png'' [1, 2, 3]))
      ''photo.png'' (Some ''photo.cleaned.png'') = (r, w1) \<Longrightarrow>
      map_option content (disk w1 ''photo.cleaned.png'') = Some [0x89, 0x50]
      \<and> disk w1 ''photo.png'' = Some (demo_file [1, 2, 3])" for r w1
    by (auto simp: clean_image_metadata_def cleaning_header_def print_def demo_world_def
        demo_env_def open_rb_def demo_file_def or_path_def demo_image_def image_save_def
        open_wb_def new_file_def write_at_def Image_new_def Let_def)
  have ca: "clean_audio_metadata demo_env (cleaning_header (demo_world ''song.mp3'' [0x49, 5, 6]))
      ''song.mp3'' (Some ''song.cleaned.mp3'') = (r, w1) \<Longrightarrow>
      map_option content (disk w1 ''song.cleaned.mp3'') = Some [5, 6]
      \<and> disk w1 ''song.mp3'' = Some (demo_file [0x49, 5, 6])" for r w1
    by (auto simp: clean_audio_metadata_def cleaning_header_def print_def demo_world_def
        demo_env_def open_rb_def demo_file_def or_path_def demo_audio_def copy2_def open_wb_def
        new_file_def write_at_def file_read_def rewrite_file_def has_tags_def Let_def)
  show ?thesis
    using cd ci ca
    by (simp add: perform_copy_pdf [OF xd] perform_copy_image [OF xi] perform_copy_audio [OF xa]
        suffix_doc suffix_png suffix_song wp disk_report_outcome split: prod.splits)
qed

end
